theory Spec2Isabelle
  imports Main "HOL-Library.AList"
begin

section \<open>Device-flow OAuth credential manager (auth.ts)\<close>

text \<open>
  A shallow embedding of \<^verbatim>\<open>packages/mcp-server-utils/src/auth/auth.ts\<close>.
  Asynchronous functions become functions from the environment's answers to an
  outcome; every \<^verbatim>\<open>throw\<close> is a branch returning an error value.
\<close>

subsection \<open>Configurations\<close>

text \<open>
  \<^verbatim>\<open>GleanOAuthConfig\<close>: the fields auth.ts reads from a complete OAuth
  configuration. \<^verbatim>\<open>clientSecret\<close> is optional.
\<close>

record GleanOAuthConfig =
  baseUrl :: string
  issuer :: string
  clientId :: string
  clientSecret :: "string option"
  authorizationEndpoint :: string
  tokenEndpoint :: string

subsection \<open>Scopes\<close>

text \<open>
  \<^verbatim>\<open>getOAuthScopes\<close> (auth.ts 702-716). The registrable-domain parser
  \<^verbatim>\<open>parse\<close> of the library tldts is a parameter: it maps the issuer to its
  \<^verbatim>\<open>domain\<close> field, \<open>None\<close> standing for \<^verbatim>\<open>null\<close>. The source
  replaces \<^verbatim>\<open>null\<close> by the empty string before the switch.
\<close>

definition getOAuthScopes :: "(string \<Rightarrow> string option) \<Rightarrow> GleanOAuthConfig \<Rightarrow> string" where
  "getOAuthScopes parseDomain config =
     (let domain = (case parseDomain (issuer config) of None \<Rightarrow> '''' | Some d \<Rightarrow> d)
      in if domain = ''google.com''
           then ''openid profile https://www.googleapis.com/auth/userinfo.email''
         else if domain = ''okta.com''
           then ''openid profile offline_access''
         else ''openid profile offline_access'')"

subsection \<open>JavaScript values, errors and outcomes\<close>

text \<open>
  The values \<^verbatim>\<open>response.json()\<close> can produce, and \<^verbatim>\<open>undefined\<close>,
  which a property assignment can store. An object is its list of own
  properties in insertion order. Numbers are integers here: fractions and NaN
  are not modelled.
\<close>

datatype js_value =
    JUndefined
  | JNull
  | JBool bool
  | JNum int
  | JStr string
  | JArr "js_value list"
  | JObj "(string \<times> js_value) list"

text \<open>The codes of \<^verbatim>\<open>AuthErrorCode\<close> that auth.ts uses.\<close>

datatype AuthErrorCode =
    GleanTokenConfigUsedForOAuth
  | GleanTokenConfigUsedForOAuthRefresh
  | InvalidConfig
  | MissingOAuthMetadata
  | MissingOAuthTokens
  | AuthServerMetadataNetwork
  | AuthServerMetadataParse
  | AuthServerMetadataMissingTokenEndpoint
  | AuthServerMetadataMissingDeviceEndpoint
  | ProtectedResourceMetadataNetwork
  | ProtectedResourceMetadataNotOk
  | ProtectedResourceMetadataParse
  | ProtectedResourceMetadataMissingAuthServers
  | ProtectedResourceMetadataMissingClientId
  | RefreshTokenNotFound
  | RefreshTokenMissing
  | UnexpectedAccessTokenResponse
  | FetchTokenServerError
  | NoInteractiveTerminal
  | OAuthPollingTimeout
  | UnexpectedAuthGrantError
  | UnexpectedAuthGrantResponse

text \<open>
  What a function of auth.ts can throw: an \<^verbatim>\<open>AuthError\<close> with its code, or
  an error of the runtime (a rejected \<^verbatim>\<open>fetch\<close>, a body that is not JSON, a
  property read on \<^verbatim>\<open>null\<close>), or the plain \<^verbatim>\<open>Error\<close> in which
  \<^verbatim>\<open>authorize\<close> wraps whatever is not an \<^verbatim>\<open>AuthError\<close>, or an error
  of the external \<^verbatim>\<open>getConfig\<close>.
\<close>

datatype error =
    AuthError AuthErrorCode
  | FetchFailed
  | JsonSyntaxError
  | TypeError
  | UnexpectedError error
  | ConfigError

text \<open>
  The fate of a promise: fulfilled, rejected, or never settled.
\<close>

datatype 'a outcome = Returns 'a | Throws error | NeverSettles

text \<open>
  What \<^verbatim>\<open>fetch\<close> does with one request: it rejects, or it resolves with a
  response carrying a status and a body; the body is \<open>None\<close> when
  \<^verbatim>\<open>response.json()\<close> rejects. \<^verbatim>\<open>response.ok\<close> is a status from 200 to 299.
\<close>

datatype http_result = NetworkFailure | Response nat "js_value option"

definition ok_status :: "nat \<Rightarrow> bool" where
  "ok_status status = (200 \<le> status \<and> status \<le> 299)"

subsection \<open>The world: token store and effect log\<close>

text \<open>
  \<^verbatim>\<open>Tokens\<close> of token-store.ts, as far as auth.ts reads it.
\<close>

record Tokens =
  accessToken :: string
  refreshToken :: "string option"
  expiresAt :: "nat option"

text \<open>
  The effects of a call that can be observed from outside, in their order.
  \<^verbatim>\<open>GetConfig b\<close> is a call of \<^verbatim>\<open>getConfig\<close> of config.ts, with
  \<^verbatim>\<open>discoverOAuth\<close> set to \<open>b\<close>; what that call does itself is not
  recorded. \<^verbatim>\<open>LoadTokens\<close> and \<^verbatim>\<open>SaveTokens\<close> are the calls of
  token-store.ts, the other effects are those of auth.ts.
\<close>

datatype effect =
    HttpGet string
  | HttpPost string "(string \<times> string) list"
  | GetConfig bool
  | LoadTokens
  | SaveTokens Tokens
  | ConsoleLog string string
  | OpenBrowser string
  | AbortSignal

record world =
  store :: "Tokens option"
  log :: "effect list"

definition emit :: "effect \<Rightarrow> world \<Rightarrow> world" where
  "emit e w = w\<lparr>log := log w @ [e]\<rparr>"

definition is_network :: "effect \<Rightarrow> bool" where
  "is_network e = (case e of HttpGet _ \<Rightarrow> True | HttpPost _ _ \<Rightarrow> True | _ \<Rightarrow> False)"

text \<open>
  The parts of types.ts and token-store.ts that auth.ts calls and that are not
  part of the sources at hand are parameters of the model.
\<close>

record guards =
  isAuthResponse :: "js_value \<Rightarrow> bool"
  isAuthResponseWithURL :: "js_value \<Rightarrow> bool"
  isTokenSuccess :: "js_value \<Rightarrow> bool"

subsection \<open>Device authorization request\<close>

text \<open>The property name of an array index: its decimal digits.\<close>

definition digit_char :: "nat \<Rightarrow> char" where
  "digit_char d = char_of (48 + d)"

fun index_key :: "nat \<Rightarrow> string" where
  "index_key i =
     (if 10 \<le> i then index_key (i div 10) @ [digit_char (i mod 10)] else [digit_char i])"

text \<open>
  \<^verbatim>\<open>typeof v === 'object'\<close> holds of objects, arrays and \<^verbatim>\<open>null\<close>.
\<close>

fun typeof_object :: "js_value \<Rightarrow> bool" where
  "typeof_object JNull = True"
| "typeof_object (JArr _) = True"
| "typeof_object (JObj _) = True"
| "typeof_object _ = False"

text \<open>
  The object spread \<^verbatim>\<open>{ ...v }\<close>: the own properties of an object, the
  indexed elements of an array, nothing for \<^verbatim>\<open>null\<close> and the other primitives
  that reach it.
\<close>

fun spread :: "js_value \<Rightarrow> (string \<times> js_value) list" where
  "spread (JObj kvs) = kvs"
| "spread (JArr xs) = zip (map index_key [0..<length xs]) xs"
| "spread _ = []"

text \<open>Reading a property of an object literal: \<^verbatim>\<open>undefined\<close> when absent.\<close>

definition get_prop :: "(string \<times> js_value) list \<Rightarrow> string \<Rightarrow> js_value" where
  "get_prop kvs k = (case map_of kvs k of None \<Rightarrow> JUndefined | Some v \<Rightarrow> v)"

definition deviceAuthorizationParams :: "(string \<Rightarrow> string option) \<Rightarrow> GleanOAuthConfig \<Rightarrow> (string \<times> string) list" where
  "deviceAuthorizationParams parseDomain config =
     [(''client_id'', clientId config), (''scope'', getOAuthScopes parseDomain config)]"

text \<open>
  \<^verbatim>\<open>fetchDeviceAuthorization\<close> (auth.ts 718-774). \<open>reply\<close> is what the
  authorization endpoint does with the POST. A rejected \<^verbatim>\<open>fetch\<close> and a body
  that is not JSON propagate as they are; the two \<^verbatim>\<open>throw\<close> statements are
  the two \<open>AuthError\<close> branches.
\<close>

definition fetchDeviceAuthorization ::
  "(string \<Rightarrow> string option) \<Rightarrow> guards \<Rightarrow> http_result \<Rightarrow> GleanOAuthConfig \<Rightarrow> world
     \<Rightarrow> js_value outcome \<times> world" where
  "fetchDeviceAuthorization parseDomain g reply config w =
     (let w1 = emit (HttpPost (authorizationEndpoint config)
                       (deviceAuthorizationParams parseDomain config)) w
      in case reply of
           NetworkFailure \<Rightarrow> (Throws FetchFailed, w1)
         | Response status None \<Rightarrow> (Throws JsonSyntaxError, w1)
         | Response status (Some responseJson) \<Rightarrow>
             if \<not> (ok_status status \<and> responseJson \<noteq> JUndefined \<and> typeof_object responseJson)
             then (Throws (AuthError UnexpectedAuthGrantError), w1)
             else
               let result = spread responseJson
               in if isAuthResponseWithURL g responseJson
                  then (Returns (JObj (AList.delete ''verification_url''
                          (AList.update ''verification_uri''
                             (get_prop result ''verification_url'') result))), w1)
                  else if \<not> isAuthResponse g responseJson
                  then (Throws (AuthError UnexpectedAuthGrantResponse), w1)
                  else (Returns (JObj result), w1))"

subsection \<open>Sample type guards\<close>

text \<open>
  Modelled from the spec: the type guards of types.ts are not among the
  sources. Section 3 of the specification lists the fields of an
  \<^verbatim>\<open>AuthResponse\<close> and says that a token response is told from a token error
  by the presence of \<^verbatim>\<open>access_token\<close>. These guards serve to run the model
  on concrete responses; the functions of auth.ts take their guards as a
  parameter.
\<close>

definition has_str :: "(string \<times> js_value) list \<Rightarrow> string \<Rightarrow> bool" where
  "has_str kvs k = (case map_of kvs k of Some (JStr _) \<Rightarrow> True | _ \<Rightarrow> False)"

definition has_num :: "(string \<times> js_value) list \<Rightarrow> string \<Rightarrow> bool" where
  "has_num kvs k = (case map_of kvs k of Some (JNum _) \<Rightarrow> True | _ \<Rightarrow> False)"

definition sample_isAuthResponse :: "string \<Rightarrow> js_value \<Rightarrow> bool" where
  "sample_isAuthResponse uri_key j =
     (case j of
        JObj kvs \<Rightarrow> has_str kvs ''device_code'' \<and> has_str kvs ''user_code''
                     \<and> has_str kvs uri_key
                     \<and> has_num kvs ''expires_in'' \<and> has_num kvs ''interval''
      | _ \<Rightarrow> False)"

definition sample_isTokenSuccess :: "js_value \<Rightarrow> bool" where
  "sample_isTokenSuccess j = (case j of JObj kvs \<Rightarrow> has_str kvs ''access_token'' | _ \<Rightarrow> False)"

definition sample_guards :: guards where
  "sample_guards =
     \<lparr> isAuthResponse = sample_isAuthResponse ''verification_uri'',
       isAuthResponseWithURL = sample_isAuthResponse ''verification_url'',
       isTokenSuccess = sample_isTokenSuccess \<rparr>"

definition sample_config :: GleanOAuthConfig where
  "sample_config =
     \<lparr> baseUrl = ''https://acme.glean.com'',
       issuer = ''https://acme.okta.com'',
       clientId = ''client-1'',
       clientSecret = None,
       authorizationEndpoint = ''https://acme.okta.com/device'',
       tokenEndpoint = ''https://acme.okta.com/token'' \<rparr>"

definition empty_world :: world where
  "empty_world = \<lparr> store = None, log = [] \<rparr>"

definition sample_grant_with_url :: "(string \<times> js_value) list" where
  "sample_grant_with_url =
     [(''device_code'', JStr ''dc''), (''user_code'', JStr ''ABCD''),
      (''verification_url'', JStr ''https://acme.okta.com/activate''),
      (''expires_in'', JNum 600), (''interval'', JNum 5)]"

subsection \<open>Polling the token endpoint\<close>

text \<open>
  \<^verbatim>\<open>AuthResponse\<close> of types.ts: the fields auth.ts reads, typed as the
  interface types them. \<^verbatim>\<open>interval\<close> is in seconds.
\<close>

record AuthResponse =
  device_code :: string
  user_code :: string
  verification_uri :: string
  interval :: int
  expires_in :: int

text \<open>
  The environment of one run of \<^verbatim>\<open>pollForToken\<close>: what the token endpoint
  does with the k-th request (k from 0), the milliseconds the k-th request
  takes until its body is parsed, and the milliseconds by which the timer set
  after the k-th request fires late. The clock is \<^verbatim>\<open>Date.now()\<close>, in
  milliseconds, and never runs backwards.
\<close>

record token_endpoint =
  reply :: "nat \<Rightarrow> http_result"
  latency :: "nat \<Rightarrow> nat"
  lateness :: "nat \<Rightarrow> nat"

definition timeoutMs :: nat where
  "timeoutMs = 10 * 60 * 1000"

text \<open>
  \<^verbatim>\<open>setTimeout(f, ms)\<close> of Node: a delay below 1 or above 2147483647 is
  set to 1.
\<close>

definition node_timer_delay :: "int \<Rightarrow> nat" where
  "node_timer_delay ms = (if ms < 1 \<or> 2147483647 < ms then 1 else nat ms)"

text \<open>
  Reading a property \<^verbatim>\<open>v[k]\<close> of a parsed body, for the property names
  auth.ts reads (none is an index or \<^verbatim>\<open>length\<close>): a TypeError on
  \<^verbatim>\<open>null\<close> and \<^verbatim>\<open>undefined\<close> (\<open>None\<close> here), the property of an
  object, \<^verbatim>\<open>undefined\<close> on an array or a primitive.
\<close>

fun read_prop :: "js_value \<Rightarrow> string \<Rightarrow> js_value option" where
  "read_prop JNull k = None"
| "read_prop JUndefined k = None"
| "read_prop (JObj kvs) k = Some (get_prop kvs k)"
| "read_prop _ k = Some JUndefined"

text \<open>
  \<^verbatim>\<open>v == 'authorization_pending'\<close>, the loose equality of the source. A
  string is compared as it is; an array is turned into the string of its
  elements joined by commas, so only an array of one element that is itself
  loosely equal can match; numbers, booleans, \<^verbatim>\<open>null\<close>, \<^verbatim>\<open>undefined\<close>
  and objects never match this string.
\<close>

fun loose_eq_pending :: "js_value \<Rightarrow> bool" where
  "loose_eq_pending (JStr s) = (s = ''authorization_pending'')"
| "loose_eq_pending (JArr [x]) = loose_eq_pending x"
| "loose_eq_pending _ = False"

text \<open>
  The result of a run: the fate of the promise, the clock when the run ended,
  and the clock at each request issued, in order.
\<close>

record poll_result =
  outcome :: "js_value outcome"
  ended_at :: nat
  request_times :: "nat list"

text \<open>
  An error thrown inside \<^verbatim>\<open>poll\<close> rejects the promise \<^verbatim>\<open>poll\<close> returns.
  Only the first call has a handler (\<^verbatim>\<open>poll().catch(reject)\<close>, line 687); the
  calls made by \<^verbatim>\<open>setTimeout\<close> have none, so the promise of
  \<^verbatim>\<open>pollForToken\<close> stays pending.
\<close>

definition uncaught :: "nat \<Rightarrow> error \<Rightarrow> js_value outcome" where
  "uncaught k e = (if k = 0 then Throws e else NeverSettles)"

text \<open>
  The closure \<^verbatim>\<open>poll\<close> (auth.ts 629-685). \<open>now\<close> is the clock when the
  tick starts, \<open>reqs\<close> the clock at each request issued so far.
\<close>

function poll :: "guards \<Rightarrow> token_endpoint \<Rightarrow> AuthResponse \<Rightarrow> nat \<Rightarrow> nat \<Rightarrow> nat list \<Rightarrow> poll_result" where
  "poll g E authResponse startTime now reqs =
     (if now - startTime \<ge> timeoutMs
      then \<lparr> outcome = Throws (AuthError OAuthPollingTimeout), ended_at = now, request_times = reqs \<rparr>
      else
        let k = length reqs;
            reqs' = reqs @ [now];
            t = now + latency E k
        in case reply E k of
             NetworkFailure \<Rightarrow>
               \<lparr> outcome = uncaught k FetchFailed, ended_at = t, request_times = reqs' \<rparr>
           | Response status None \<Rightarrow>
               \<lparr> outcome = uncaught k JsonSyntaxError, ended_at = t, request_times = reqs' \<rparr>
           | Response status (Some response) \<Rightarrow>
               if isTokenSuccess g response
               then \<lparr> outcome = Returns response, ended_at = t, request_times = reqs' \<rparr>
               else (case read_prop response ''error'' of
                       None \<Rightarrow>
                         \<lparr> outcome = uncaught k TypeError, ended_at = t, request_times = reqs' \<rparr>
                     | Some err \<Rightarrow>
                         if loose_eq_pending err
                         then poll g E authResponse startTime
                                (t + node_timer_delay (interval authResponse * 1000) + lateness E k) reqs'
                         else \<lparr> outcome = Throws (AuthError UnexpectedAuthGrantError),
                                ended_at = t, request_times = reqs' \<rparr>))"
  by pat_completeness auto
termination
  by (relation "measure (\<lambda>(g, E, a, startTime, now, reqs). startTime + timeoutMs - now)")
     (auto simp: node_timer_delay_def)

declare poll.simps [simp del]

definition tokenPollParams :: "AuthResponse \<Rightarrow> GleanOAuthConfig \<Rightarrow> (string \<times> string) list" where
  "tokenPollParams authResponse config =
     [(''client_id'', clientId config)]
     @ (case clientSecret config of None \<Rightarrow> [] | Some s \<Rightarrow> [(''client_secret'', s)])
     @ [(''grant_type'', ''urn:ietf:params:oauth:grant-type:device_code''),
        (''device_code'', device_code authResponse)]"

text \<open>
  \<^verbatim>\<open>pollForToken\<close> (auth.ts 621-689): \<^verbatim>\<open>startTime\<close> is the clock when the
  promise is created, and the first tick runs at once. Each request is a POST
  of the same parameters to the token endpoint.
\<close>

definition pollForToken ::
  "guards \<Rightarrow> token_endpoint \<Rightarrow> nat \<Rightarrow> AuthResponse \<Rightarrow> GleanOAuthConfig \<Rightarrow> world
     \<Rightarrow> poll_result \<times> world" where
  "pollForToken g E startTime authResponse config w =
     (let r = poll g E authResponse startTime startTime []
      in (r, w\<lparr>log := log w @ map (\<lambda>t. HttpPost (tokenEndpoint config)
                                           (tokenPollParams authResponse config))
                                 (request_times r)\<rparr>))"

text \<open>
  A reply that keeps the engine polling: a parsed body that is not a token
  response and whose \<^verbatim>\<open>error\<close> is "authorization_pending".
\<close>

definition is_pending :: "guards \<Rightarrow> http_result \<Rightarrow> bool" where
  "is_pending g r =
     (case r of
        Response status (Some j) \<Rightarrow>
          \<not> isTokenSuccess g j
          \<and> (case read_prop j ''error'' of None \<Rightarrow> False | Some err \<Rightarrow> loose_eq_pending err)
      | _ \<Rightarrow> False)"

definition is_success :: "guards \<Rightarrow> js_value \<Rightarrow> http_result \<Rightarrow> bool" where
  "is_success g payload r =
     (case r of
        Response status (Some j) \<Rightarrow> j = payload \<and> isTokenSuccess g j
      | _ \<Rightarrow> False)"

text \<open>
  The clock at the start of tick k when every earlier reply was pending.
\<close>

fun tick_time :: "token_endpoint \<Rightarrow> AuthResponse \<Rightarrow> nat \<Rightarrow> nat \<Rightarrow> nat" where
  "tick_time E a startTime 0 = startTime"
| "tick_time E a startTime (Suc k) =
     tick_time E a startTime k + latency E k
       + node_timer_delay (interval a * 1000) + lateness E k"

text \<open>Sample replies of a token endpoint, and an endpoint without delays.\<close>

definition pending_reply :: http_result where
  "pending_reply = Response 400 (Some (JObj [(''error'', JStr ''authorization_pending'')]))"

definition sample_token :: js_value where
  "sample_token = JObj [(''access_token'', JStr ''at''), (''refresh_token'', JStr ''rt''),
                        (''expires_in'', JNum 3600)]"

definition pending_then_success :: "nat \<Rightarrow> token_endpoint" where
  "pending_then_success n =
     \<lparr> reply = (\<lambda>k. if k < n then pending_reply else Response 200 (Some sample_token)),
       latency = (\<lambda>k. 0), lateness = (\<lambda>k. 0) \<rparr>"

definition always_pending :: token_endpoint where
  "always_pending = \<lparr> reply = (\<lambda>k. pending_reply), latency = (\<lambda>k. 0), lateness = (\<lambda>k. 0) \<rparr>"

definition sample_grant :: "int \<Rightarrow> AuthResponse" where
  "sample_grant i =
     \<lparr> device_code = ''dc'', user_code = ''ABCD'',
       verification_uri = ''https://acme.okta.com/activate'',
       interval = i, expires_in = 600 \<rparr>"

subsection \<open>Discovery\<close>

text \<open>
  Modelled from the spec: config/index.ts is not among the sources. By
  section 3 of the specification a configuration is exactly one of three
  variants, which the guards \<^verbatim>\<open>isGleanTokenConfig\<close>, \<^verbatim>\<open>isOAuthConfig\<close>
  and \<^verbatim>\<open>isBasicConfig\<close> tell apart: a token configuration (base URL and
  token), a complete OAuth configuration, or a basic configuration (base URL
  and, each when it is a string, issuer, client id and client secret).
\<close>

datatype GleanConfig =
    TokenConfig string string
  | OAuthConfig GleanOAuthConfig
  | BasicConfig string "string option" "string option" "string option"

fun isGleanTokenConfig :: "GleanConfig \<Rightarrow> bool" where
  "isGleanTokenConfig (TokenConfig _ _) = True"
| "isGleanTokenConfig _ = False"

fun isOAuthConfig :: "GleanConfig \<Rightarrow> bool" where
  "isOAuthConfig (OAuthConfig _) = True"
| "isOAuthConfig _ = False"

fun isBasicConfig :: "GleanConfig \<Rightarrow> bool" where
  "isBasicConfig (BasicConfig _ _ _ _) = True"
| "isBasicConfig _ = False"

fun config_baseUrl :: "GleanConfig \<Rightarrow> string" where
  "config_baseUrl (TokenConfig b _) = b"
| "config_baseUrl (OAuthConfig c) = baseUrl c"
| "config_baseUrl (BasicConfig b _ _ _) = b"

text \<open>
  The network as discovery sees it: what a GET of each URL does, and the
  \<^verbatim>\<open>origin\<close> of a URL (\<open>None\<close> when \<^verbatim>\<open>new URL\<close> throws).
\<close>

record discovery_net =
  http_get :: "string \<Rightarrow> http_result"
  url_origin :: "string \<Rightarrow> string option"

text \<open>
  \<^verbatim>\<open>fetchOpenIdConfiguration\<close> (auth.ts 279-293) and
  \<^verbatim>\<open>fetchOauthAuthorizationServerConfig\<close> (295-311) differ in the URL only.
  Both turn a rejected \<^verbatim>\<open>fetch\<close> and a status that is not ok into the
  error of \<^verbatim>\<open>failAuthorizationServerMetadataFetch\<close>, and return the response,
  here its body as \<^verbatim>\<open>response.json()\<close> will give it.
\<close>

definition fetchWellKnown :: "discovery_net \<Rightarrow> string \<Rightarrow> world \<Rightarrow> js_value option outcome \<times> world" where
  "fetchWellKnown net url w =
     (let w1 = emit (HttpGet url) w
      in case http_get net url of
           NetworkFailure \<Rightarrow> (Throws (AuthError AuthServerMetadataNetwork), w1)
         | Response status body \<Rightarrow>
             if \<not> ok_status status then (Throws (AuthError AuthServerMetadataNetwork), w1)
             else (Returns body, w1))"

definition openid_configuration_url :: "string \<Rightarrow> string" where
  "openid_configuration_url iss = iss @ ''/.well-known/openid-configuration''"

definition oauth_authorization_server_url :: "string \<Rightarrow> string" where
  "oauth_authorization_server_url iss = iss @ ''/.well-known/oauth-authorization-server''"

definition fetchOpenIdConfiguration :: "discovery_net \<Rightarrow> string \<Rightarrow> world \<Rightarrow> js_value option outcome \<times> world" where
  "fetchOpenIdConfiguration net iss w = fetchWellKnown net (openid_configuration_url iss) w"

definition fetchOauthAuthorizationServerConfig :: "discovery_net \<Rightarrow> string \<Rightarrow> world \<Rightarrow> js_value option outcome \<times> world" where
  "fetchOauthAuthorizationServerConfig net iss w =
     fetchWellKnown net (oauth_authorization_server_url iss) w"

text \<open>
  Lines 328-360 of \<^verbatim>\<open>fetchAuthorizationServerMetadata\<close>: parse the body and
  read the two endpoints. The result is the pair of
  \<^verbatim>\<open>deviceAuthorizationEndpoint\<close> and \<^verbatim>\<open>tokenEndpoint\<close>. The reads of
  lines 339-341 are outside every \<^verbatim>\<open>try\<close>.
\<close>

definition readAuthorizationServerMetadata :: "js_value option \<Rightarrow> (string \<times> string) outcome" where
  "readAuthorizationServerMetadata body =
     (case body of
        None \<Rightarrow> Throws (AuthError AuthServerMetadataParse)
      | Some responseJson \<Rightarrow>
          (case read_prop responseJson ''device_authorization_endpoint'' of
             None \<Rightarrow> Throws TypeError
           | Some deviceEndpoint \<Rightarrow>
               (case read_prop responseJson ''token_endpoint'' of
                  None \<Rightarrow> Throws TypeError
                | Some tokenEndpoint' \<Rightarrow>
                    (case tokenEndpoint' of
                       JStr t \<Rightarrow>
                         (case deviceEndpoint of
                            JStr d \<Rightarrow> Returns (d, t)
                          | _ \<Rightarrow> Throws (AuthError AuthServerMetadataMissingDeviceEndpoint))
                     | _ \<Rightarrow> Throws (AuthError AuthServerMetadataMissingTokenEndpoint)))))"

text \<open>
  \<^verbatim>\<open>fetchAuthorizationServerMetadata\<close> (auth.ts 313-361): whatever
  \<^verbatim>\<open>fetchOpenIdConfiguration\<close> throws is caught, and the fallback is tried.
\<close>

definition fetchAuthorizationServerMetadata ::
  "discovery_net \<Rightarrow> string \<Rightarrow> world \<Rightarrow> (string \<times> string) outcome \<times> world" where
  "fetchAuthorizationServerMetadata net iss w =
     (case fetchOpenIdConfiguration net iss w of
        (Returns body, w1) \<Rightarrow> (readAuthorizationServerMetadata body, w1)
      | (NeverSettles, w1) \<Rightarrow> (NeverSettles, w1)
      | (Throws cause, w1) \<Rightarrow>
          (case fetchOauthAuthorizationServerConfig net iss w1 of
             (Returns body, w2) \<Rightarrow> (readAuthorizationServerMetadata body, w2)
           | (NeverSettles, w2) \<Rightarrow> (NeverSettles, w2)
           | (Throws e, w2) \<Rightarrow> (Throws e, w2)))"

record ProtectedResourceMetadata =
  pr_issuer :: string
  pr_clientId :: string
  pr_clientSecret :: "string option"

definition protected_resource_url :: "string \<Rightarrow> string" where
  "protected_resource_url origin = origin @ ''/.well-known/oauth-protected-resource''"

text \<open>
  \<^verbatim>\<open>fetchProtectedResourceMetadata\<close> (auth.ts 368-436). A client secret that
  is not a string is kept by the source and never used as one; it is
  \<open>None\<close> here.
\<close>

definition fetchProtectedResourceMetadata ::
  "discovery_net \<Rightarrow> GleanConfig \<Rightarrow> world \<Rightarrow> ProtectedResourceMetadata outcome \<times> world" where
  "fetchProtectedResourceMetadata net config w =
     (case url_origin net (config_baseUrl config) of
        None \<Rightarrow> (Throws TypeError, w)
      | Some origin \<Rightarrow>
          let w1 = emit (HttpGet (protected_resource_url origin)) w
          in (case http_get net (protected_resource_url origin) of
                NetworkFailure \<Rightarrow> (Throws (AuthError ProtectedResourceMetadataNetwork), w1)
              | Response status body \<Rightarrow>
                  if \<not> ok_status status
                  then (Throws (AuthError ProtectedResourceMetadataNotOk), w1)
                  else (case body of
                          None \<Rightarrow> (Throws (AuthError ProtectedResourceMetadataParse), w1)
                        | Some responseJson \<Rightarrow>
                            (case (read_prop responseJson ''authorization_servers'',
                                   read_prop responseJson ''glean_device_flow_client_id'',
                                   read_prop responseJson ''glean_device_flow_client_sec'') of
                               (Some authServers, Some cid, Some secret) \<Rightarrow>
                                 (case (case authServers of JArr (x # xs) \<Rightarrow> x | _ \<Rightarrow> JUndefined) of
                                    JStr iss \<Rightarrow>
                                      (case cid of
                                         JStr c \<Rightarrow>
                                           (Returns \<lparr> pr_issuer = iss, pr_clientId = c,
                                                      pr_clientSecret =
                                                        (case secret of JStr sec \<Rightarrow> Some sec | _ \<Rightarrow> None) \<rparr>,
                                            w1)
                                       | _ \<Rightarrow> (Throws (AuthError ProtectedResourceMetadataMissingClientId), w1))
                                  | _ \<Rightarrow> (Throws (AuthError ProtectedResourceMetadataMissingAuthServers), w1))
                             | _ \<Rightarrow> (Throws TypeError, w1)))))"

text \<open>
  \<^verbatim>\<open>discoverOAuthConfig\<close> (auth.ts 225-270). \<open>getConfig\<close> is the answer
  of the external \<^verbatim>\<open>getConfig()\<close>, asked only when no configuration is
  passed.
\<close>

definition discoverOAuthConfig ::
  "discovery_net \<Rightarrow> error + GleanConfig \<Rightarrow> GleanConfig option \<Rightarrow> world
     \<Rightarrow> GleanOAuthConfig outcome \<times> world" where
  "discoverOAuthConfig net getConfig config_arg w =
     (case (case config_arg of
              Some c \<Rightarrow> (Inr c, w)
            | None \<Rightarrow> (getConfig, emit (GetConfig False) w)) of
        (Inl e, w0) \<Rightarrow> (Throws e, w0)
      | (Inr (TokenConfig b t), w0) \<Rightarrow> (Throws (AuthError InvalidConfig), w0)
      | (Inr (OAuthConfig c), w0) \<Rightarrow> (Returns c, w0)
      | (Inr (BasicConfig b iss_opt cid secret), w0) \<Rightarrow>
          (case (case (iss_opt, cid) of
                   (Some i, Some c) \<Rightarrow> (Returns (i, c, secret), w0)
                 | _ \<Rightarrow>
                     (case fetchProtectedResourceMetadata net (BasicConfig b iss_opt cid secret) w0 of
                        (Returns m, w1) \<Rightarrow> (Returns (pr_issuer m, pr_clientId m, pr_clientSecret m), w1)
                      | (Throws e, w1) \<Rightarrow> (Throws e, w1)
                      | (NeverSettles, w1) \<Rightarrow> (NeverSettles, w1))) of
             (Throws e, w1) \<Rightarrow> (Throws e, w1)
           | (NeverSettles, w1) \<Rightarrow> (NeverSettles, w1)
           | (Returns (i, c, sec), w1) \<Rightarrow>
               (case fetchAuthorizationServerMetadata net i w1 of
                  (Throws e, w2) \<Rightarrow> (Throws e, w2)
                | (NeverSettles, w2) \<Rightarrow> (NeverSettles, w2)
                | (Returns (deviceAuthorizationEndpoint, tokenEndpoint'), w2) \<Rightarrow>
                    (Returns \<lparr> baseUrl = b, issuer = i, clientId = c, clientSecret = sec,
                               authorizationEndpoint = deviceAuthorizationEndpoint,
                               tokenEndpoint = tokenEndpoint' \<rparr>, w2))))"

text \<open>Sample networks for discovery.\<close>

definition sample_metadata :: js_value where
  "sample_metadata =
     JObj [(''issuer'', JStr ''https://acme.okta.com''),
           (''device_authorization_endpoint'', JStr ''https://acme.okta.com/device''),
           (''token_endpoint'', JStr ''https://acme.okta.com/token'')]"

definition net_serving :: "(string \<times> http_result) list \<Rightarrow> discovery_net" where
  "net_serving pages =
     \<lparr> http_get = (\<lambda>url. case map_of pages url of None \<Rightarrow> NetworkFailure | Some r \<Rightarrow> r),
       url_origin = (\<lambda>url. Some url) \<rparr>"

text \<open>
  The effects a run added to the log, and when a GET of a URL fails for
  \<^verbatim>\<open>fetchWellKnown\<close>.
\<close>

definition new_effects :: "world \<Rightarrow> world \<Rightarrow> effect list" where
  "new_effects w w' = drop (length (log w)) (log w')"

definition get_fails :: "discovery_net \<Rightarrow> string \<Rightarrow> bool" where
  "get_fails net url =
     (case http_get net url of NetworkFailure \<Rightarrow> True | Response status body \<Rightarrow> \<not> ok_status status)"

definition body_of :: "discovery_net \<Rightarrow> string \<Rightarrow> js_value option" where
  "body_of net url = (case http_get net url of NetworkFailure \<Rightarrow> None | Response status body \<Rightarrow> body)"

subsection \<open>The prompt and the poller\<close>

text \<open>
  \<^verbatim>\<open>authorize\<close> starts the poller and the prompt in the same turn of the
  event loop; from then on two kinds of event drive the attempt: a line read
  from the terminal, and the settling of the poller's promise. Each event runs
  to completion with the promise reactions it triggers before the next event
  is taken.
\<close>

datatype race_event = UserEnter | PollerSettles

text \<open>
  The state shared by the two tasks: \<^verbatim>\<open>signal.aborted\<close>, whether the
  readline interface is closed, whether the promise of \<^verbatim>\<open>waitForUserEnter\<close>
  is resolved (so that the prompt has resumed), whether the poller has
  settled, and the effects so far.
\<close>

record race_state =
  aborted :: bool
  rl_closed :: bool
  prompt_resumed :: bool
  poller_settled :: bool
  effects :: "effect list"

definition race_start :: race_state where
  "race_start = \<lparr> aborted = False, rl_closed = False, prompt_resumed = False,
                  poller_settled = False, effects = [] \<rparr>"

text \<open>
  \<^verbatim>\<open>promptUserAndOpenVerificationPage\<close> after its \<^verbatim>\<open>await\<close> (auth.ts
  612-618): return if the signal is aborted, open the page otherwise. A
  promise resolves once, so the continuation runs once.
\<close>

definition resume_prompt :: "string \<Rightarrow> race_state \<Rightarrow> race_state" where
  "resume_prompt uri s =
     (if prompt_resumed s then s
      else if aborted s then s\<lparr>prompt_resumed := True\<rparr>
      else s\<lparr>prompt_resumed := True, effects := effects s @ [OpenBrowser uri]\<rparr>)"

text \<open>
  Both listeners of \<^verbatim>\<open>waitForUserEnter\<close> (auth.ts 582-591) do the same:
  \<^verbatim>\<open>cleanup()\<close>, which closes the interface, then \<^verbatim>\<open>resolve()\<close>.
\<close>

definition listener :: "string \<Rightarrow> race_state \<Rightarrow> race_state" where
  "listener uri s = resume_prompt uri (s\<lparr>rl_closed := True\<rparr>)"

text \<open>
  A closed interface emits no line. When the poller settles, \<^verbatim>\<open>authorize\<close>
  resumes and calls \<^verbatim>\<open>abortController.abort()\<close> (line 552, or 560 after a
  rejection), which sets \<^verbatim>\<open>aborted\<close> and then runs the abort listener; a
  second \<^verbatim>\<open>abort()\<close> does nothing.
\<close>

fun race_step :: "string \<Rightarrow> race_event \<Rightarrow> race_state \<Rightarrow> race_state" where
  "race_step uri UserEnter s = (if rl_closed s then s else listener uri s)"
| "race_step uri PollerSettles s =
     (if poller_settled s then s
      else listener uri
             (s\<lparr>poller_settled := True, aborted := True,
                effects := effects s @ [AbortSignal]\<rparr>))"

definition run_race :: "string \<Rightarrow> race_event list \<Rightarrow> race_state" where
  "run_race uri evs = fold (race_step uri) evs race_start"

definition is_open :: "effect \<Rightarrow> bool" where
  "is_open e = (case e of OpenBrowser _ \<Rightarrow> True | _ \<Rightarrow> False)"

text \<open>
  The order of events of one attempt: the user presses Enter at the clock
  values \<open>enters\<close>; the presses before the poller settles come first.
\<close>

definition schedule :: "nat list \<Rightarrow> poll_result \<Rightarrow> race_event list" where
  "schedule enters pr =
     (case outcome pr of
        NeverSettles \<Rightarrow> map (\<lambda>t. UserEnter) enters
      | _ \<Rightarrow> map (\<lambda>t. UserEnter) (filter (\<lambda>t. t < ended_at pr) enters)
             @ PollerSettles
             # map (\<lambda>t. UserEnter) (filter (\<lambda>t. ended_at pr \<le> t) enters))"

subsection \<open>The orchestrator\<close>

text \<open>
  What the functions of the orchestrator get from outside auth.ts: the parser
  of tldts, the guards and the field view of types.ts, the two members of
  \<^verbatim>\<open>Tokens\<close> that auth.ts calls, the terminal, the answers of the
  authorization server, the clock when polling starts, the clock at each
  press of Enter, and the answers of \<^verbatim>\<open>getConfig()\<close> and of
  \<^verbatim>\<open>getConfig({ discoverOAuth: true })\<close>. The latter never yields a basic
  configuration.
\<close>

datatype ResolvedConfig = ResolvedToken string string | ResolvedOAuth GleanOAuthConfig

record environment =
  tldts_parse :: "string \<Rightarrow> string option"
  type_guards :: guards
  asAuthResponse :: "js_value \<Rightarrow> AuthResponse"
  buildFromTokenResponse :: "js_value \<Rightarrow> Tokens"
  isExpired :: "Tokens \<Rightarrow> bool"
  stdin_isTTY :: bool
  device_endpoint :: http_result
  token_polls :: token_endpoint
  clock_at_poll :: nat
  enter_times :: "nat list"
  refresh_endpoint :: http_result
  getConfig :: "error + GleanConfig"
  getConfig_discoverOAuth :: "error + ResolvedConfig"

definition loadTokens :: "world \<Rightarrow> Tokens option \<times> world" where
  "loadTokens w = (store w, emit LoadTokens w)"

definition saveTokens :: "Tokens \<Rightarrow> world \<Rightarrow> world" where
  "saveTokens t w = emit (SaveTokens t) (w\<lparr>store := Some t\<rparr>)"

fun is_AuthError :: "error \<Rightarrow> bool" where
  "is_AuthError (AuthError _) = True"
| "is_AuthError _ = False"

text \<open>
  The \<^verbatim>\<open>catch\<close> of \<^verbatim>\<open>authorize\<close> (auth.ts 558-568) rethrows an
  \<^verbatim>\<open>AuthError\<close> and wraps any other error.
\<close>

definition rethrow :: "error \<Rightarrow> error" where
  "rethrow cause = (if is_AuthError cause then cause else UnexpectedError cause)"

text \<open>
  \<^verbatim>\<open>authorize\<close> (auth.ts 525-569). The log lists the requests of the
  poller before the effects of the prompt, whatever their order in time.
\<close>

definition authorize :: "environment \<Rightarrow> GleanOAuthConfig \<Rightarrow> world \<Rightarrow> Tokens option outcome \<times> world" where
  "authorize env config w =
     (if \<not> stdin_isTTY env then (Throws (AuthError NoInteractiveTerminal), w)
      else
        case fetchDeviceAuthorization (tldts_parse env) (type_guards env) (device_endpoint env)
               config w of
          (Throws cause, w1) \<Rightarrow> (Throws (rethrow cause), emit AbortSignal w1)
        | (NeverSettles, w1) \<Rightarrow> (NeverSettles, w1)
        | (Returns authJson, w1) \<Rightarrow>
            let authResponse = asAuthResponse env authJson;
                (pr, w2) = pollForToken (type_guards env) (token_polls env) (clock_at_poll env)
                             authResponse config w1;
                w3 = emit (ConsoleLog (user_code authResponse) (verification_uri authResponse)) w2;
                final = run_race (verification_uri authResponse) (schedule (enter_times env) pr);
                w4 = w3\<lparr>log := log w3 @ effects final\<rparr>
            in (case outcome pr of
                  Returns tokenResponse \<Rightarrow> (Returns (Some (buildFromTokenResponse env tokenResponse)), w4)
                | Throws cause \<Rightarrow> (Throws (rethrow cause), w4)
                | NeverSettles \<Rightarrow> (NeverSettles, w4)))"

text \<open>\<^verbatim>\<open>forceAuthorize\<close> (auth.ts 174-191).\<close>

definition forceAuthorize :: "environment \<Rightarrow> GleanConfig option \<Rightarrow> world \<Rightarrow> Tokens option outcome \<times> world" where
  "forceAuthorize env config_arg w =
     (case (case config_arg of
              Some (TokenConfig b t) \<Rightarrow> (Inr (ResolvedToken b t), w)
            | Some (OAuthConfig c) \<Rightarrow> (Inr (ResolvedOAuth c), w)
            | _ \<Rightarrow> (getConfig_discoverOAuth env, emit (GetConfig True) w)) of
        (Inl e, w0) \<Rightarrow> (Throws e, w0)
      | (Inr (ResolvedToken b t), w0) \<Rightarrow> (Throws (AuthError GleanTokenConfigUsedForOAuth), w0)
      | (Inr (ResolvedOAuth c), w0) \<Rightarrow>
          (case authorize env c w0 of
             (Returns tokens, w1) \<Rightarrow>
               (Returns tokens, (case tokens of None \<Rightarrow> w1 | Some t \<Rightarrow> saveTokens t w1))
           | (Throws e, w1) \<Rightarrow> (Throws e, w1)
           | (NeverSettles, w1) \<Rightarrow> (NeverSettles, w1)))"

definition refreshParams :: "string \<Rightarrow> GleanOAuthConfig \<Rightarrow> (string \<times> string) list" where
  "refreshParams rt config =
     [(''client_id'', clientId config)]
     @ (case clientSecret config of None \<Rightarrow> [] | Some s \<Rightarrow> [(''client_secret'', s)])
     @ [(''grant_type'', ''refresh_token''), (''refresh_token'', rt)]"

text \<open>
  \<^verbatim>\<open>fetchTokenViaRefresh\<close> (auth.ts 464-523). The \<^verbatim>\<open>try\<close> of lines
  500-509 covers both the request and the parsing of the body.
\<close>

definition fetchTokenViaRefresh :: "environment \<Rightarrow> Tokens \<Rightarrow> GleanOAuthConfig \<Rightarrow> world \<Rightarrow> Tokens outcome \<times> world" where
  "fetchTokenViaRefresh env tokens config w =
     (case refreshToken tokens of
        None \<Rightarrow> (Throws (AuthError RefreshTokenMissing), w)
      | Some rt \<Rightarrow>
          let w1 = emit (HttpPost (tokenEndpoint config) (refreshParams rt config)) w
          in (case refresh_endpoint env of
                NetworkFailure \<Rightarrow> (Throws (AuthError UnexpectedAccessTokenResponse), w1)
              | Response status None \<Rightarrow> (Throws (AuthError UnexpectedAccessTokenResponse), w1)
              | Response status (Some response) \<Rightarrow>
                  if isTokenSuccess (type_guards env) response
                  then (Returns (buildFromTokenResponse env response), w1)
                  else (Throws (AuthError FetchTokenServerError), w1)))"

text \<open>\<^verbatim>\<open>forceRefreshTokens\<close> (auth.ts 438-459).\<close>

definition forceRefreshTokens :: "environment \<Rightarrow> world \<Rightarrow> unit outcome \<times> world" where
  "forceRefreshTokens env w =
     (let w0 = emit (GetConfig True) w
      in case getConfig_discoverOAuth env of
           Inl e \<Rightarrow> (Throws e, w0)
         | Inr (ResolvedToken b t) \<Rightarrow> (Throws (AuthError GleanTokenConfigUsedForOAuthRefresh), w0)
         | Inr (ResolvedOAuth config) \<Rightarrow>
             (case loadTokens w0 of
                (None, w1) \<Rightarrow> (Throws (AuthError RefreshTokenNotFound), w1)
              | (Some tokens, w1) \<Rightarrow>
                  (case fetchTokenViaRefresh env tokens config w1 of
                     (Returns tokens', w2) \<Rightarrow> (Returns (), saveTokens tokens' w2)
                   | (Throws e, w2) \<Rightarrow> (Throws e, w2)
                   | (NeverSettles, w2) \<Rightarrow> (NeverSettles, w2))))"

text \<open>\<^verbatim>\<open>ensureAuthTokenPresence\<close> (auth.ts 62-82).\<close>

definition ensureAuthTokenPresence :: "environment \<Rightarrow> world \<Rightarrow> bool outcome \<times> world" where
  "ensureAuthTokenPresence env w =
     (let w0 = emit (GetConfig False) w
      in case getConfig env of
           Inl e \<Rightarrow> (Throws e, w0)
         | Inr config \<Rightarrow>
             if isGleanTokenConfig config then (Returns True, w0)
             else
               (case (case loadTokens w0 of
                        (None, w1) \<Rightarrow> forceAuthorize env None w1
                      | (Some t, w1) \<Rightarrow> (Returns (Some t), w1)) of
                  (Throws e, w2) \<Rightarrow> (Throws e, w2)
                | (NeverSettles, w2) \<Rightarrow> (NeverSettles, w2)
                | (Returns None, w2) \<Rightarrow> (Returns False, w2)
                | (Returns (Some tokens), w2) \<Rightarrow>
                    if isExpired env tokens
                    then (case forceRefreshTokens env w2 of
                            (Throws e, w3) \<Rightarrow> (Throws e, w3)
                          | (NeverSettles, w3) \<Rightarrow> (NeverSettles, w3)
                          | (Returns u, w3) \<Rightarrow>
                              (case loadTokens w3 of
                                 (tokens', w4) \<Rightarrow> (Returns (tokens' \<noteq> None), w4)))
                    else (Returns True, w2)))"

text \<open>A sample environment: an interactive terminal, a server that grants on
  the second poll, and a user who presses Enter after that.\<close>

definition sample_asAuthResponse :: "js_value \<Rightarrow> AuthResponse" where
  "sample_asAuthResponse j =
     (case j of
        JObj kvs \<Rightarrow>
          \<lparr> device_code = (case map_of kvs ''device_code'' of Some (JStr s) \<Rightarrow> s | _ \<Rightarrow> ''''),
            user_code = (case map_of kvs ''user_code'' of Some (JStr s) \<Rightarrow> s | _ \<Rightarrow> ''''),
            verification_uri = (case map_of kvs ''verification_uri'' of Some (JStr s) \<Rightarrow> s | _ \<Rightarrow> ''''),
            interval = (case map_of kvs ''interval'' of Some (JNum n) \<Rightarrow> n | _ \<Rightarrow> 0),
            expires_in = (case map_of kvs ''expires_in'' of Some (JNum n) \<Rightarrow> n | _ \<Rightarrow> 0) \<rparr>
      | _ \<Rightarrow> sample_grant 0)"

definition sample_buildFromTokenResponse :: "js_value \<Rightarrow> Tokens" where
  "sample_buildFromTokenResponse j =
     (case j of
        JObj kvs \<Rightarrow>
          \<lparr> accessToken = (case map_of kvs ''access_token'' of Some (JStr s) \<Rightarrow> s | _ \<Rightarrow> ''''),
            refreshToken = (case map_of kvs ''refresh_token'' of Some (JStr s) \<Rightarrow> Some s | _ \<Rightarrow> None),
            expiresAt = (case map_of kvs ''expires_in'' of Some (JNum n) \<Rightarrow> Some (nat n) | _ \<Rightarrow> None) \<rparr>
      | _ \<Rightarrow> \<lparr> accessToken = '''', refreshToken = None, expiresAt = None \<rparr>)"

definition sample_env :: environment where
  "sample_env =
     \<lparr> tldts_parse = (\<lambda>u. Some ''okta.com''),
       type_guards = sample_guards,
       asAuthResponse = sample_asAuthResponse,
       buildFromTokenResponse = sample_buildFromTokenResponse,
       isExpired = (\<lambda>t. case expiresAt t of None \<Rightarrow> False | Some e \<Rightarrow> e \<le> 1000),
       stdin_isTTY = True,
       device_endpoint = Response 200 (Some (JObj sample_grant_with_url)),
       token_polls = pending_then_success 1,
       clock_at_poll = 0,
       enter_times = [9000],
       refresh_endpoint = Response 200 (Some sample_token),
       getConfig = Inr (OAuthConfig sample_config),
       getConfig_discoverOAuth = Inr (ResolvedOAuth sample_config) \<rparr>"

text \<open>
  Two facts about the state of the race used below: the page was opened at
  most once and only by a prompt that has resumed; and the state once the
  poller has settled before any line was read.
\<close>

definition race_inv :: "race_state \<Rightarrow> bool" where
  "race_inv s = ((prompt_resumed s \<or> filter is_open (effects s) = [])
                 \<and> length (filter is_open (effects s)) \<le> 1)"

definition race_cancelled :: race_state where
  "race_cancelled = \<lparr> aborted = True, rl_closed = True, prompt_resumed = True,
                      poller_settled = True, effects = [AbortSignal] \<rparr>"

text \<open>The sample grant after normalisation.\<close>

definition sample_grant_normalised :: "(string \<times> js_value) list" where
  "sample_grant_normalised =
     [(''device_code'', JStr ''dc''), (''user_code'', JStr ''ABCD''),
      (''expires_in'', JNum 600), (''interval'', JNum 5),
      (''verification_uri'', JStr ''https://acme.okta.com/activate'')]"

text \<open>
  A request to the authorization server of the discovered configuration: a
  POST to its device authorization endpoint or to its token endpoint. And a
  log that grew by effects that all satisfy a property.
\<close>

definition to_oauth_server :: "environment \<Rightarrow> effect \<Rightarrow> bool" where
  "to_oauth_server env e =
     (case getConfig_discoverOAuth env of
        Inr (ResolvedOAuth c) \<Rightarrow>
          (case e of
             HttpPost url ps \<Rightarrow> url = authorizationEndpoint c \<or> url = tokenEndpoint c
           | _ \<Rightarrow> False)
      | _ \<Rightarrow> False)"

definition extends_by :: "(effect \<Rightarrow> bool) \<Rightarrow> world \<Rightarrow> world \<Rightarrow> bool" where
  "extends_by P w w' =
     (take (length (log w)) (log w') = log w \<and> list_all P (new_effects w w'))"

text \<open>
  An effect that is no request, or is a request to that authorization server.
\<close>

definition quiet :: "environment \<Rightarrow> effect \<Rightarrow> bool" where
  "quiet env e = (is_network e \<longrightarrow> to_oauth_server env e)"








text \<open>A world whose log has grown by some effects, and a world that holds tokens.\<close>

definition logged :: "effect list \<Rightarrow> world \<Rightarrow> world" where
  "logged es w = w\<lparr>log := log w @ es\<rparr>"


section \<open>Properties\<close>

subsection \<open>Properties of scope selection\<close>

text \<open>
  Claim C6. The scope string depends on the configuration only through the
  registrable domain of its issuer: it is the Google scope string when that
  domain is google.com and "openid profile offline_access" for every other
  domain, okta.com included, and also when the parser finds no domain.
\<close>

theorem getOAuthScopes_table:
  "getOAuthScopes parseDomain config =
     (if parseDomain (issuer config) = Some ''google.com''
      then ''openid profile https://www.googleapis.com/auth/userinfo.email''
      else ''openid profile offline_access'')"
  by (simp add: getOAuthScopes_def Let_def split: option.split)

subsection \<open>Properties of the device authorization request\<close>

text \<open>
  Claim C7. When the authorization endpoint answers with a 2xx status and an
  object that the guard for the verification_url variant accepts, and that
  holds verification_url and no verification_uri, the function returns an
  object whose verification_uri is that value, which has no verification_url
  key, and whose other properties are those of the body. A status outside
  200..299 is an error whatever the body, and so is a body that neither
  guard accepts.
\<close>

theorem fetchDeviceAuthorization_normalises:
  "(ok_status status \<and> isAuthResponseWithURL g (JObj kvs)
      \<and> map_of kvs ''verification_url'' = Some v
      \<and> map_of kvs ''verification_uri'' = None
    \<longrightarrow> (\<exists>res. fst (fetchDeviceAuthorization pd g (Response status (Some (JObj kvs))) config w)
                  = Returns (JObj res)
          \<and> map_of res ''verification_uri'' = Some v
          \<and> ''verification_url'' \<notin> fst ` set res
          \<and> (\<forall>k. k \<noteq> ''verification_uri'' \<and> k \<noteq> ''verification_url''
                 \<longrightarrow> map_of res k = map_of kvs k)))
   \<and> (\<not> ok_status status2
    \<longrightarrow> (\<exists>e. fst (fetchDeviceAuthorization pd g (Response status2 body) config w) = Throws e))
   \<and> (\<not> isAuthResponseWithURL g j \<and> \<not> isAuthResponse g j
    \<longrightarrow> (\<exists>e. fst (fetchDeviceAuthorization pd g (Response status3 (Some j)) config w) = Throws e))"
proof (intro conjI impI)
  assume h: "ok_status status \<and> isAuthResponseWithURL g (JObj kvs)
      \<and> map_of kvs ''verification_url'' = Some v
      \<and> map_of kvs ''verification_uri'' = None"
  let ?res = "AList.delete ''verification_url'' (AList.update ''verification_uri'' v kvs)"
  have r: "fst (fetchDeviceAuthorization pd g (Response status (Some (JObj kvs))) config w)
             = Returns (JObj ?res)"
    using h by (simp add: fetchDeviceAuthorization_def Let_def get_prop_def)
  have uri: "map_of ?res ''verification_uri'' = Some v"
    by (simp add: delete_conv' update_conv')
  have url: "''verification_url'' \<notin> fst ` set ?res"
    by (rule delete_notin_dom)
  have rest: "\<forall>k. k \<noteq> ''verification_uri'' \<and> k \<noteq> ''verification_url''
                 \<longrightarrow> map_of ?res k = map_of kvs k"
    by (simp add: delete_conv' update_conv')
  from r uri url rest
  show "\<exists>res. fst (fetchDeviceAuthorization pd g (Response status (Some (JObj kvs))) config w)
                  = Returns (JObj res)
          \<and> map_of res ''verification_uri'' = Some v
          \<and> ''verification_url'' \<notin> fst ` set res
          \<and> (\<forall>k. k \<noteq> ''verification_uri'' \<and> k \<noteq> ''verification_url''
                 \<longrightarrow> map_of res k = map_of kvs k)"
    by blast
next
  assume "\<not> ok_status status2"
  then show "\<exists>e. fst (fetchDeviceAuthorization pd g (Response status2 body) config w) = Throws e"
    by (cases body) (simp_all add: fetchDeviceAuthorization_def Let_def)
next
  assume "\<not> isAuthResponseWithURL g j \<and> \<not> isAuthResponse g j"
  then show "\<exists>e. fst (fetchDeviceAuthorization pd g (Response status3 (Some j)) config w) = Throws e"
    by (simp add: fetchDeviceAuthorization_def Let_def)
qed

theorem fetchDeviceAuthorization_normalises_witness:
  "(\<exists>res. fst (fetchDeviceAuthorization (\<lambda>u. Some ''okta.com'') sample_guards
                  (Response 200 (Some (JObj sample_grant_with_url))) sample_config empty_world)
             = Returns (JObj res)
          \<and> map_of res ''verification_uri'' = Some (JStr ''https://acme.okta.com/activate'')
          \<and> ''verification_url'' \<notin> fst ` set res
          \<and> (\<forall>k. k \<noteq> ''verification_uri'' \<and> k \<noteq> ''verification_url''
                 \<longrightarrow> map_of res k = map_of sample_grant_with_url k))
   \<and> (\<exists>e. fst (fetchDeviceAuthorization (\<lambda>u. Some ''okta.com'') sample_guards
                  (Response 403 (Some (JObj sample_grant_with_url))) sample_config empty_world)
             = Throws e)
   \<and> (\<exists>e. fst (fetchDeviceAuthorization (\<lambda>u. Some ''okta.com'') sample_guards
                  (Response 200 (Some (JObj [(''verification_url'', JStr ''https://x'')])))
                  sample_config empty_world)
             = Throws e)"
  using fetchDeviceAuthorization_normalises
          [of 200 sample_guards sample_grant_with_url "JStr ''https://acme.okta.com/activate''"
              "\<lambda>u. Some ''okta.com''" sample_config empty_world
              403 "Some (JObj sample_grant_with_url)"
              "JObj [(''verification_url'', JStr ''https://x'')]" 200]
  by (simp add: ok_status_def sample_guards_def sample_isAuthResponse_def
        sample_grant_with_url_def has_str_def has_num_def)

subsection \<open>Properties of the polling engine\<close>


lemma poll_pending_step:
  assumes "is_pending g (reply E (length reqs))" and "now - s < timeoutMs"
  shows "poll g E a s now reqs =
           poll g E a s (now + latency E (length reqs) + node_timer_delay (interval a * 1000)
                          + lateness E (length reqs)) (reqs @ [now])"
proof -
  from assms(1) obtain status j err where
    r: "reply E (length reqs) = Response status (Some j)"
    and ns: "\<not> isTokenSuccess g j"
    and e: "read_prop j ''error'' = Some err" and p: "loose_eq_pending err"
    by (auto simp: is_pending_def split: http_result.splits option.splits)
  from assms(2) have nt: "\<not> timeoutMs \<le> now - s" by simp
  show ?thesis
    by (subst poll.simps) (simp add: nt r ns e p Let_def)
qed

lemma poll_success_step:
  assumes "is_success g payload (reply E (length reqs))" and "now - s < timeoutMs"
  shows "poll g E a s now reqs =
           \<lparr> outcome = Returns payload, ended_at = now + latency E (length reqs),
             request_times = reqs @ [now] \<rparr>"
proof -
  from assms(1) obtain status where
    r: "reply E (length reqs) = Response status (Some payload)"
    and ns: "isTokenSuccess g payload"
    by (auto simp: is_success_def split: http_result.splits option.splits)
  from assms(2) have nt: "\<not> timeoutMs \<le> now - s" by simp
  show ?thesis
    by (subst poll.simps) (simp add: nt r ns Let_def)
qed

lemma tick_time_mono: "k \<le> n \<Longrightarrow> tick_time E a s k \<le> tick_time E a s n"
  by (induction n) (auto simp: le_Suc_eq)

lemma tick_time_ge_start: "s \<le> tick_time E a s k"
  using tick_time_mono [of 0 k E a s] by simp

lemma poll_run:
  assumes pend: "\<forall>k<N. is_pending g (reply E k)"
    and succ: "is_success g payload (reply E N)"
    and dl: "tick_time E a s N - s < timeoutMs"
  shows "k \<le> N \<Longrightarrow> length reqs = k \<Longrightarrow>
         poll g E a s (tick_time E a s k) reqs =
           \<lparr> outcome = Returns payload, ended_at = tick_time E a s N + latency E N,
             request_times = reqs @ map (tick_time E a s) [k..<Suc N] \<rparr>"
proof (induction "N - k" arbitrary: k reqs)
  case 0
  then have kN: "k = N" by simp
  with succ 0 have a1: "is_success g payload (reply E (length reqs))" by simp
  from dl kN have a2: "tick_time E a s k - s < timeoutMs" by simp
  have "poll g E a s (tick_time E a s k) reqs =
          \<lparr> outcome = Returns payload, ended_at = tick_time E a s k + latency E (length reqs),
            request_times = reqs @ [tick_time E a s k] \<rparr>"
    by (rule poll_success_step [OF a1 a2])
  then show ?case using kN 0 by simp
next
  case (Suc d)
  then have lt: "k < N" by simp
  with pend Suc.prems have p: "is_pending g (reply E (length reqs))" by simp
  have "tick_time E a s k \<le> tick_time E a s N" using lt by (simp add: tick_time_mono)
  with dl have t: "tick_time E a s k - s < timeoutMs" by simp
  have step: "poll g E a s (tick_time E a s k) reqs =
                poll g E a s (tick_time E a s (Suc k)) (reqs @ [tick_time E a s k])"
    using poll_pending_step [OF p t, of a] Suc.prems by simp
  have "d = N - Suc k" using Suc.hyps by simp
  moreover have "Suc k \<le> N" using lt by simp
  moreover have "length (reqs @ [tick_time E a s k]) = Suc k" using Suc.prems by simp
  ultimately have "poll g E a s (tick_time E a s (Suc k)) (reqs @ [tick_time E a s k]) =
           \<lparr> outcome = Returns payload, ended_at = tick_time E a s N + latency E N,
             request_times = (reqs @ [tick_time E a s k]) @ map (tick_time E a s) [Suc k..<Suc N] \<rparr>"
    by (rule Suc.hyps(1))
  moreover have "[k..<Suc N] = k # [Suc k..<Suc N]" using lt by (simp add: upt_conv_Cons)
  ultimately show ?case using step by simp
qed



lemma tick_time_closed:
  "tick_time E a s n =
     s + (\<Sum>k<n. latency E k + lateness E k) + n * node_timer_delay (interval a * 1000)"
  by (induction n) simp_all

lemma node_timer_delay_in_range:
  "ms \<le> 2147483647 \<Longrightarrow> int (node_timer_delay ms) = max 1 ms"
  by (simp add: node_timer_delay_def)

text \<open>
  Claim C1, amended. When the token endpoint answers "authorization_pending"
  to each of the first N requests and a token response to request N+1, and the
  time the first N rounds take (N times the interval, at least a millisecond
  each, plus the time of the requests and the lateness of the timers) is
  under 600 seconds, then \<^verbatim>\<open>pollForToken\<close> resolves with that token
  response, issues exactly N+1 requests, lets at least the interval pass
  between consecutive requests, and so resolves no earlier than N times the
  interval after it started.
\<close>

theorem pollForToken_pending_then_success:
  assumes pend: "\<forall>k<N. is_pending g (reply E k)"
    and succ: "is_success g payload (reply E N)"
    and dl: "int (\<Sum>k<N. latency E k + lateness E k) + int N * max 1 (interval a * 1000) < 600000"
  shows "outcome (fst (pollForToken g E s a config w)) = Returns payload
       \<and> length (request_times (fst (pollForToken g E s a config w))) = N + 1
       \<and> log (snd (pollForToken g E s a config w))
           = log w @ replicate (N + 1) (HttpPost (tokenEndpoint config) (tokenPollParams a config))
       \<and> (\<forall>i<N. interval a * 1000
                 \<le> int (request_times (fst (pollForToken g E s a config w)) ! Suc i)
                   - int (request_times (fst (pollForToken g E s a config w)) ! i))
       \<and> int N * (interval a * 1000) \<le> int (ended_at (fst (pollForToken g E s a config w))) - int s"
proof -
  let ?d = "node_timer_delay (interval a * 1000)"
  have inr: "interval a * 1000 \<le> 2147483647" if "N \<noteq> 0"
  proof -
    have "0 \<le> int (\<Sum>k<N. latency E k + lateness E k)" by (rule of_nat_0_le_iff)
    with dl have "int N * max 1 (interval a * 1000) < 600000" by linarith
    moreover have "max 1 (interval a * 1000) \<le> int N * max 1 (interval a * 1000)"
      using that by (simp add: mult_le_cancel_right1)
    ultimately show ?thesis by linarith
  qed
  have d: "int N * int ?d = int N * max 1 (interval a * 1000)"
    using inr by (cases "N = 0") (simp_all add: node_timer_delay_in_range)
  have ge: "interval a * 1000 \<le> int ?d" if "N \<noteq> 0"
    using inr [OF that] by (simp add: node_timer_delay_in_range)
  have "int (tick_time E a s N) - int s
          = int (\<Sum>k<N. latency E k + lateness E k) + int N * int ?d"
    by (simp add: tick_time_closed)
  with dl d have "int (tick_time E a s N) - int s < 600000" by (simp only:)
  then have dl': "tick_time E a s N - s < timeoutMs" by (simp add: timeoutMs_def)
  have run: "poll g E a s s [] =
           \<lparr> outcome = Returns payload, ended_at = tick_time E a s N + latency E N,
             request_times = map (tick_time E a s) [0..<Suc N] \<rparr>"
    using poll_run [OF pend succ dl', of 0 "[]"] by simp
  have r: "fst (pollForToken g E s a config w) =
           \<lparr> outcome = Returns payload, ended_at = tick_time E a s N + latency E N,
             request_times = map (tick_time E a s) [0..<Suc N] \<rparr>"
    by (simp add: pollForToken_def Let_def run)
  have l: "log (snd (pollForToken g E s a config w))
           = log w @ replicate (N + 1) (HttpPost (tokenEndpoint config) (tokenPollParams a config))"
    by (simp add: pollForToken_def Let_def run map_replicate_const del: upt_Suc replicate_Suc)
  have sp: "\<forall>i<N. interval a * 1000
                 \<le> int (map (tick_time E a s) [0..<Suc N] ! Suc i)
                   - int (map (tick_time E a s) [0..<Suc N] ! i)"
  proof (intro allI impI)
    fix i assume i: "i < N"
    have "map (tick_time E a s) [0..<Suc N] ! Suc i = tick_time E a s (Suc i)"
      using i by (simp only: nth_map_upt diff_zero Suc_less_eq add_0)
    moreover have "map (tick_time E a s) [0..<Suc N] ! i = tick_time E a s i"
      using i by (simp only: nth_map_upt diff_zero less_Suc_eq add_0 simp_thms)
    moreover have "int ?d \<le> int (tick_time E a s (Suc i)) - int (tick_time E a s i)"
      by simp
    moreover have "N \<noteq> 0" using i by simp
    ultimately show "interval a * 1000
                 \<le> int (map (tick_time E a s) [0..<Suc N] ! Suc i)
                   - int (map (tick_time E a s) [0..<Suc N] ! i)"
      using ge by linarith
  qed
  have "int N * (interval a * 1000) \<le> int N * int ?d"
    using ge by (cases "N = 0") (simp_all add: mult_left_mono)
  also have "\<dots> \<le> int (tick_time E a s N) - int s"
  proof -
    have "0 \<le> int (\<Sum>k<N. latency E k + lateness E k)" by (rule of_nat_0_le_iff)
    moreover have "int (tick_time E a s N) - int s
          = int (\<Sum>k<N. latency E k + lateness E k) + int N * int ?d"
      by (simp add: tick_time_closed)
    ultimately show ?thesis by linarith
  qed
  finally have tot: "int N * (interval a * 1000) \<le> int (tick_time E a s N + latency E N) - int s"
    by simp
  show ?thesis
    unfolding r using l sp tot by simp
qed



theorem pollForToken_pending_then_success_witness:
  "outcome (fst (pollForToken sample_guards (pending_then_success 2) 1000 (sample_grant 5)
                   sample_config empty_world)) = Returns sample_token
   \<and> length (request_times (fst (pollForToken sample_guards (pending_then_success 2) 1000
                   (sample_grant 5) sample_config empty_world))) = 3
   \<and> 10000 \<le> int (ended_at (fst (pollForToken sample_guards (pending_then_success 2) 1000
                   (sample_grant 5) sample_config empty_world))) - 1000"
  using pollForToken_pending_then_success
          [of 2 sample_guards "pending_then_success 2" sample_token "sample_grant 5"
              1000 sample_config empty_world]
  by (simp add: is_pending_def is_success_def pending_then_success_def pending_reply_def
        sample_guards_def sample_isTokenSuccess_def has_str_def get_prop_def sample_token_def
        sample_grant_def)

text \<open>
  Without the bound on the elapsed time the claim fails: with an interval of
  300 seconds and two pending replies before the token response, the third
  tick starts 600 seconds after the first, the deadline check of line 631
  rejects, and only two requests have been issued.
\<close>

theorem pollForToken_deadline_counterexample:
  "is_pending sample_guards (reply (pending_then_success 2) 0)
   \<and> is_pending sample_guards (reply (pending_then_success 2) 1)
   \<and> is_success sample_guards sample_token (reply (pending_then_success 2) 2)
   \<and> fst (pollForToken sample_guards (pending_then_success 2) 0 (sample_grant 300)
             sample_config empty_world)
       = \<lparr> outcome = Throws (AuthError OAuthPollingTimeout), ended_at = 600000,
           request_times = [0, 300000] \<rparr>"
  by (simp add: pollForToken_def poll.simps is_pending_def is_success_def
        pending_then_success_def pending_reply_def
        sample_guards_def sample_isTokenSuccess_def has_str_def get_prop_def sample_token_def
        sample_grant_def timeoutMs_def node_timer_delay_def Let_def)


subsection \<open>Properties of discovery\<close>

lemma fetchWellKnown_eq:
  "fetchWellKnown net url w =
     (if get_fails net url then Throws (AuthError AuthServerMetadataNetwork)
      else Returns (body_of net url), emit (HttpGet url) w)"
  by (simp add: fetchWellKnown_def get_fails_def body_of_def Let_def split: http_result.split)

lemma fetchAuthorizationServerMetadata_eq:
  "fetchAuthorizationServerMetadata net iss w =
     (if \<not> get_fails net (openid_configuration_url iss)
      then (readAuthorizationServerMetadata (body_of net (openid_configuration_url iss)),
            emit (HttpGet (openid_configuration_url iss)) w)
      else if \<not> get_fails net (oauth_authorization_server_url iss)
      then (readAuthorizationServerMetadata (body_of net (oauth_authorization_server_url iss)),
            emit (HttpGet (oauth_authorization_server_url iss))
              (emit (HttpGet (openid_configuration_url iss)) w))
      else (Throws (AuthError AuthServerMetadataNetwork),
            emit (HttpGet (oauth_authorization_server_url iss))
              (emit (HttpGet (openid_configuration_url iss)) w)))"
  by (simp add: fetchAuthorizationServerMetadata_def fetchOpenIdConfiguration_def
        fetchOauthAuthorizationServerConfig_def fetchWellKnown_eq)

lemma readAuthorizationServerMetadata_object:
  "readAuthorizationServerMetadata (Some (JObj kvs)) =
     (case map_of kvs ''token_endpoint'' of
        Some (JStr t) \<Rightarrow>
          (case map_of kvs ''device_authorization_endpoint'' of
             Some (JStr d) \<Rightarrow> Returns (d, t)
           | _ \<Rightarrow> Throws (AuthError AuthServerMetadataMissingDeviceEndpoint))
      | _ \<Rightarrow> Throws (AuthError AuthServerMetadataMissingTokenEndpoint))"
  by (simp add: readAuthorizationServerMetadata_def get_prop_def
           split: option.split js_value.split)

text \<open>
  Claim C9. The first request goes to the openid-configuration document and,
  when it fails, the second to the oauth-authorization-server document
  (\<open>fetchAuthorizationServerMetadata_eq\<close>); an object without a string
  token_endpoint or device_authorization_endpoint gives the code of the
  missing endpoint (\<open>readAuthorizationServerMetadata_object\<close>). The body
  \<^verbatim>\<open>null\<close>, which \<^verbatim>\<open>response.json()\<close> accepts, has neither endpoint, and
  there the function throws the TypeError of the property read of line 340, an
  error without a code.
\<close>

theorem fetchAuthorizationServerMetadata_null_body:
  "fetchAuthorizationServerMetadata
     (net_serving [(''https://idp.example/.well-known/openid-configuration'',
                    Response 200 (Some JNull))])
     ''https://idp.example'' empty_world
   = (Throws TypeError,
      \<lparr> store = None, log = [HttpGet ''https://idp.example/.well-known/openid-configuration''] \<rparr>)"
  by (simp add: fetchAuthorizationServerMetadata_eq get_fails_def body_of_def net_serving_def
        openid_configuration_url_def ok_status_def readAuthorizationServerMetadata_def
        emit_def empty_world_def)


lemma log_emit [simp]: "log (emit e w) = log w @ [e]"
  by (simp add: emit_def)

lemma store_emit [simp]: "store (emit e w) = store w"
  by (simp add: emit_def)

lemma new_effects_append [simp]: "log w' = log w @ es \<Longrightarrow> new_effects w w' = es"
  by (simp add: new_effects_def)

lemma fetchAuthorizationServerMetadata_log:
  "log (snd (fetchAuthorizationServerMetadata net iss w)) =
     log w @ (if get_fails net (openid_configuration_url iss)
              then [HttpGet (openid_configuration_url iss),
                    HttpGet (oauth_authorization_server_url iss)]
              else [HttpGet (openid_configuration_url iss)])"
  by (simp add: fetchAuthorizationServerMetadata_eq)

lemma protected_resource_url_neq:
  "protected_resource_url o1 \<noteq> openid_configuration_url i"
  "protected_resource_url o1 \<noteq> oauth_authorization_server_url i"
proof -
  have "last (protected_resource_url o1) = CHR ''e''"
    by (simp add: protected_resource_url_def)
  moreover have "last (openid_configuration_url i) = CHR ''n''"
    by (simp add: openid_configuration_url_def)
  moreover have "last (oauth_authorization_server_url i) = CHR ''r''"
    by (simp add: oauth_authorization_server_url_def)
  ultimately show "protected_resource_url o1 \<noteq> openid_configuration_url i"
    and "protected_resource_url o1 \<noteq> oauth_authorization_server_url i"
    by auto
qed

lemma discoverOAuthConfig_given:
  "discoverOAuthConfig net gc (Some (BasicConfig b (Some i) (Some c) sec)) w =
     (case fetchAuthorizationServerMetadata net i w of
        (Throws e, w2) \<Rightarrow> (Throws e, w2)
      | (NeverSettles, w2) \<Rightarrow> (NeverSettles, w2)
      | (Returns (d, t), w2) \<Rightarrow>
          (Returns \<lparr> baseUrl = b, issuer = i, clientId = c, clientSecret = sec,
                     authorizationEndpoint = d, tokenEndpoint = t \<rparr>, w2))"
  by (simp add: discoverOAuthConfig_def)

lemma discoverOAuthConfig_given_log:
  "log (snd (discoverOAuthConfig net gc (Some (BasicConfig b (Some i) (Some c) sec)) w)) =
     log (snd (fetchAuthorizationServerMetadata net i w))"
  by (simp add: discoverOAuthConfig_given split: prod.split outcome.split)

lemma fetchProtectedResourceMetadata_log:
  "url_origin net (config_baseUrl config) = Some origin \<Longrightarrow>
   log (snd (fetchProtectedResourceMetadata net config w))
     = log w @ [HttpGet (protected_resource_url origin)]"
  by (simp add: fetchProtectedResourceMetadata_def Let_def
           split: http_result.split option.split js_value.split list.split)

lemma fetchAuthorizationServerMetadata_log_ex:
  "\<exists>es. log (snd (fetchAuthorizationServerMetadata net iss w)) = log w @ es"
  by (simp add: fetchAuthorizationServerMetadata_log)

lemma discoverOAuthConfig_missing_log:
  assumes m: "iss = None \<or> cid = None" and o: "url_origin net b = Some origin"
  shows "\<exists>es. log (snd (discoverOAuthConfig net gc (Some (BasicConfig b iss cid sec)) w))
               = log w @ HttpGet (protected_resource_url origin) # es"
proof -
  let ?p = "fetchProtectedResourceMetadata net (BasicConfig b iss cid sec) w"
  have lp: "log (snd ?p) = log w @ [HttpGet (protected_resource_url origin)]"
    using o by (simp add: fetchProtectedResourceMetadata_log)
  have d: "discoverOAuthConfig net gc (Some (BasicConfig b iss cid sec)) w =
             (case ?p of
                (Throws e, w1) \<Rightarrow> (Throws e, w1)
              | (NeverSettles, w1) \<Rightarrow> (NeverSettles, w1)
              | (Returns m, w1) \<Rightarrow>
                  (case fetchAuthorizationServerMetadata net (pr_issuer m) w1 of
                     (Throws e, w2) \<Rightarrow> (Throws e, w2)
                   | (NeverSettles, w2) \<Rightarrow> (NeverSettles, w2)
                   | (Returns (d, t), w2) \<Rightarrow>
                       (Returns \<lparr> baseUrl = b, issuer = pr_issuer m, clientId = pr_clientId m,
                                  clientSecret = pr_clientSecret m,
                                  authorizationEndpoint = d, tokenEndpoint = t \<rparr>, w2)))"
    using m by (auto simp: discoverOAuthConfig_def split: option.split prod.split outcome.split)
  show ?thesis
  proof (cases ?p)
    case (Pair r w1)
    with lp have l1: "log w1 = log w @ [HttpGet (protected_resource_url origin)]" by simp
    show ?thesis
    proof (cases r)
      case (Returns m')
      obtain es where "log (snd (fetchAuthorizationServerMetadata net (pr_issuer m') w1)) = log w1 @ es"
        using fetchAuthorizationServerMetadata_log_ex by blast
      then show ?thesis
        unfolding d Pair Returns using l1
        by (auto split: prod.split outcome.split)
    next
      case (Throws e)
      then show ?thesis unfolding d Pair using l1 by simp
    next
      case NeverSettles
      then show ?thesis unfolding d Pair using l1 by simp
    qed
  qed
qed

text \<open>
  Claim C10, amended. On a complete OAuth configuration
  \<^verbatim>\<open>discoverOAuthConfig\<close> returns the configuration itself and leaves the
  world as it found it: no request, no other effect. The protected-resource
  metadata is requested only for a basic configuration whose issuer or client
  id is not a string, and is requested for each of those whose base URL has an
  origin.
\<close>

theorem discoverOAuthConfig_fetches:
  "discoverOAuthConfig net gc (Some (OAuthConfig c)) w = (Returns c, w)
   \<and> ((\<exists>origin. HttpGet (protected_resource_url origin)
                  \<in> set (new_effects w (snd (discoverOAuthConfig net gc (Some config) w))))
        \<longrightarrow> (\<exists>b iss cid sec. config = BasicConfig b iss cid sec \<and> (iss = None \<or> cid = None)))
   \<and> ((iss' = None \<or> cid' = None) \<and> url_origin net b' = Some origin'
        \<longrightarrow> HttpGet (protected_resource_url origin')
              \<in> set (new_effects w
                       (snd (discoverOAuthConfig net gc (Some (BasicConfig b' iss' cid' sec')) w))))"
proof (intro conjI)
  show "discoverOAuthConfig net gc (Some (OAuthConfig c)) w = (Returns c, w)"
    by (simp add: discoverOAuthConfig_def)
next
  show "(\<exists>origin. HttpGet (protected_resource_url origin)
                  \<in> set (new_effects w (snd (discoverOAuthConfig net gc (Some config) w))))
        \<longrightarrow> (\<exists>b iss cid sec. config = BasicConfig b iss cid sec \<and> (iss = None \<or> cid = None))"
  proof (cases config)
    case (TokenConfig b t)
    then show ?thesis by (simp add: discoverOAuthConfig_def new_effects_def)
  next
    case (OAuthConfig c')
    then show ?thesis by (simp add: discoverOAuthConfig_def new_effects_def)
  next
    case (BasicConfig b iss cid sec)
    show ?thesis
    proof (cases "iss = None \<or> cid = None")
      case True
      with BasicConfig show ?thesis by simp
    next
      case False
      then obtain i c' where ic: "iss = Some i" "cid = Some c'" by auto
      have "new_effects w (snd (discoverOAuthConfig net gc (Some config) w)) =
              (if get_fails net (openid_configuration_url i)
               then [HttpGet (openid_configuration_url i),
                     HttpGet (oauth_authorization_server_url i)]
               else [HttpGet (openid_configuration_url i)])"
        unfolding BasicConfig ic
        by (rule new_effects_append)
           (simp only: discoverOAuthConfig_given_log fetchAuthorizationServerMetadata_log)
      then show ?thesis
        using protected_resource_url_neq by auto
    qed
  qed
next
  show "(iss' = None \<or> cid' = None) \<and> url_origin net b' = Some origin'
        \<longrightarrow> HttpGet (protected_resource_url origin')
              \<in> set (new_effects w
                       (snd (discoverOAuthConfig net gc (Some (BasicConfig b' iss' cid' sec')) w)))"
  proof
    assume h: "(iss' = None \<or> cid' = None) \<and> url_origin net b' = Some origin'"
    then obtain es where
      "log (snd (discoverOAuthConfig net gc (Some (BasicConfig b' iss' cid' sec')) w))
         = log w @ HttpGet (protected_resource_url origin') # es"
      using discoverOAuthConfig_missing_log [of iss' cid' net b' origin' gc sec' w] by blast
    then show "HttpGet (protected_resource_url origin')
              \<in> set (new_effects w
                       (snd (discoverOAuthConfig net gc (Some (BasicConfig b' iss' cid' sec')) w)))"
      by (simp add: new_effects_def)
  qed
qed

theorem discoverOAuthConfig_fetches_witness:
  "HttpGet (protected_resource_url ''https://acme.glean.com'')
     \<in> set (new_effects empty_world
              (snd (discoverOAuthConfig (net_serving []) (Inl ConfigError)
                      (Some (BasicConfig ''https://acme.glean.com'' None None None)) empty_world)))
   \<and> (\<exists>b iss cid sec. BasicConfig ''https://acme.glean.com'' None None None = BasicConfig b iss cid sec
        \<and> (iss = None \<or> cid = None))"
  using discoverOAuthConfig_fetches
          [of "net_serving []" "Inl ConfigError" sample_config empty_world
              "BasicConfig ''https://acme.glean.com'' None None None"
              None None "''https://acme.glean.com''" "''https://acme.glean.com''" None]
  by (simp add: net_serving_def)

text \<open>
  The authorization-server metadata is requested for a basic configuration
  that has both issuer and client id: discovery fetches metadata there too.
\<close>

theorem discoverOAuthConfig_metadata_counterexample:
  "discoverOAuthConfig
     (net_serving [(''https://acme.okta.com/.well-known/openid-configuration'',
                    Response 200 (Some sample_metadata))])
     (Inl ConfigError)
     (Some (BasicConfig ''https://acme.glean.com'' (Some ''https://acme.okta.com'')
              (Some ''client-1'') None))
     empty_world
   = (Returns sample_config,
      \<lparr> store = None,
        log = [HttpGet ''https://acme.okta.com/.well-known/openid-configuration''] \<rparr>)"
  by (simp add: discoverOAuthConfig_given fetchAuthorizationServerMetadata_eq get_fails_def
        body_of_def net_serving_def openid_configuration_url_def ok_status_def
        readAuthorizationServerMetadata_def sample_metadata_def get_prop_def
        sample_config_def emit_def empty_world_def)

subsection \<open>Properties of the prompt and the poller\<close>

lemma pollForToken_fst:
  "fst (pollForToken g E s a config w) = poll g E a s s []"
  by (simp add: pollForToken_def Let_def)

lemma pollForToken_log:
  "log (snd (pollForToken g E s a config w)) =
     log w @ map (\<lambda>t. HttpPost (tokenEndpoint config) (tokenPollParams a config))
                 (request_times (poll g E a s s []))"
  by (simp add: pollForToken_def Let_def)

lemma pollForToken_store:
  "store (snd (pollForToken g E s a config w)) = store w"
  by (simp add: pollForToken_def Let_def)

lemma fetchDeviceAuthorization_log:
  "log (snd (fetchDeviceAuthorization pd g r config w)) =
     log w @ [HttpPost (authorizationEndpoint config) (deviceAuthorizationParams pd config)]"
  by (simp add: fetchDeviceAuthorization_def Let_def split: http_result.split option.split)

lemma fetchDeviceAuthorization_store:
  "store (snd (fetchDeviceAuthorization pd g r config w)) = store w"
  by (simp add: fetchDeviceAuthorization_def Let_def split: http_result.split option.split)

lemma race_inv_resume: "race_inv s \<Longrightarrow> race_inv (resume_prompt uri s)"
  by (auto simp: race_inv_def resume_prompt_def is_open_def)

lemma race_inv_step: "race_inv s \<Longrightarrow> race_inv (race_step uri ev s)"
proof (cases ev)
  case UserEnter
  assume i: "race_inv s"
  then have "race_inv (s\<lparr>rl_closed := True\<rparr>)" by (simp add: race_inv_def)
  then show ?thesis using i UserEnter by (simp add: listener_def race_inv_resume)
next
  case PollerSettles
  assume i: "race_inv s"
  then have "race_inv (s\<lparr>poller_settled := True, aborted := True,
                          effects := effects s @ [AbortSignal], rl_closed := True\<rparr>)"
    by (simp add: race_inv_def is_open_def)
  then show ?thesis using i PollerSettles by (simp add: listener_def race_inv_resume)
qed

lemma race_inv_fold: "race_inv s \<Longrightarrow> race_inv (fold (race_step uri) evs s)"
  by (induction evs arbitrary: s) (simp_all add: race_inv_step)

lemma run_race_opens_once: "length (filter is_open (effects (run_race uri evs))) \<le> 1"
proof -
  have "race_inv race_start" by (simp add: race_inv_def race_start_def)
  then have "race_inv (run_race uri evs)" unfolding run_race_def by (rule race_inv_fold)
  then show ?thesis by (simp add: race_inv_def)
qed

lemma race_cancelled_step: "race_step uri ev race_cancelled = race_cancelled"
  by (cases ev) (simp_all add: race_cancelled_def)

lemma race_cancelled_fold: "fold (race_step uri) evs race_cancelled = race_cancelled"
  by (induction evs) (simp_all add: race_cancelled_step)

lemma run_race_settles_first: "run_race uri (PollerSettles # evs) = race_cancelled"
proof -
  have "race_step uri PollerSettles race_start = race_cancelled"
    by (simp add: race_start_def race_cancelled_def listener_def resume_prompt_def)
  then show ?thesis by (simp add: run_race_def race_cancelled_fold)
qed

lemma schedule_settles_first:
  assumes "outcome pr \<noteq> NeverSettles" and "\<forall>t\<in>set enters. ended_at pr < t"
  shows "schedule enters pr = PollerSettles # map (\<lambda>t. UserEnter) enters"
proof -
  have "filter (\<lambda>t. t < ended_at pr) enters = []"
    using assms(2) by (auto simp: filter_empty_conv)
  moreover have "filter (\<lambda>t. ended_at pr \<le> t) enters = enters"
    using assms(2) by (auto simp: filter_id_conv)
  ultimately show ?thesis
    using assms(1) by (cases "outcome pr") (simp_all add: schedule_def)
qed

lemma authorize_log_granted:
  assumes "stdin_isTTY env"
    and "fst (fetchDeviceAuthorization (tldts_parse env) (type_guards env) (device_endpoint env)
               config w) = Returns j"
  shows "log (snd (authorize env config w)) =
           log w @ [HttpPost (authorizationEndpoint config)
                      (deviceAuthorizationParams (tldts_parse env) config)]
             @ map (\<lambda>t. HttpPost (tokenEndpoint config) (tokenPollParams (asAuthResponse env j) config))
                 (request_times (poll (type_guards env) (token_polls env) (asAuthResponse env j)
                                   (clock_at_poll env) (clock_at_poll env) []))
             @ [ConsoleLog (user_code (asAuthResponse env j)) (verification_uri (asAuthResponse env j))]
             @ effects (run_race (verification_uri (asAuthResponse env j))
                         (schedule (enter_times env)
                            (poll (type_guards env) (token_polls env) (asAuthResponse env j)
                                   (clock_at_poll env) (clock_at_poll env) [])))"
proof -
  obtain w1 where f: "fetchDeviceAuthorization (tldts_parse env) (type_guards env)
                        (device_endpoint env) config w = (Returns j, w1)"
    using assms(2) by (cases "fetchDeviceAuthorization (tldts_parse env) (type_guards env)
                        (device_endpoint env) config w") simp
  have l1: "log w1 = log w @ [HttpPost (authorizationEndpoint config)
                      (deviceAuthorizationParams (tldts_parse env) config)]"
    using fetchDeviceAuthorization_log [of "tldts_parse env" "type_guards env"
             "device_endpoint env" config w] f by simp
  show ?thesis
    using assms(1) l1
    by (simp add: authorize_def f Let_def pollForToken_def split: outcome.split)
qed

lemma authorize_log_not_granted:
  assumes "\<not> (stdin_isTTY env
            \<and> (\<exists>j. fst (fetchDeviceAuthorization (tldts_parse env) (type_guards env)
                          (device_endpoint env) config w) = Returns j))"
  shows "filter is_open (new_effects w (snd (authorize env config w))) = []"
proof (cases "stdin_isTTY env")
  case False
  then show ?thesis by (simp add: authorize_def new_effects_def)
next
  case True
  obtain r w1 where f: "fetchDeviceAuthorization (tldts_parse env) (type_guards env)
                        (device_endpoint env) config w = (r, w1)"
    by (cases "fetchDeviceAuthorization (tldts_parse env) (type_guards env)
                        (device_endpoint env) config w")
  have l1: "log w1 = log w @ [HttpPost (authorizationEndpoint config)
                      (deviceAuthorizationParams (tldts_parse env) config)]"
    using fetchDeviceAuthorization_log [of "tldts_parse env" "type_guards env"
             "device_endpoint env" config w] f by simp
  from assms True f have nr: "\<forall>j. r \<noteq> Returns j" by simp
  show ?thesis
    using True l1 nr
    by (cases r) (simp_all add: authorize_def f new_effects_def is_open_def)
qed

lemma filter_is_open_post [simp]:
  "filter is_open (map (\<lambda>t. HttpPost u p) ts) = []"
  by (induction ts) (simp_all add: is_open_def)

text \<open>
  Claim C3. In an attempt on an interactive terminal whose device grant
  succeeded, if the poller settles (resolves or rejects) before every press of
  Enter, then the abort signal is raised and \<^verbatim>\<open>open\<close> is never called. In
  every attempt, whatever the order of events and the outcome of the grant,
  \<^verbatim>\<open>open\<close> is called at most once.
\<close>

theorem authorize_opens_browser:
  "(stdin_isTTY env
      \<and> fst (fetchDeviceAuthorization (tldts_parse env) (type_guards env) (device_endpoint env)
               config w) = Returns j
      \<and> outcome (fst (pollForToken (type_guards env) (token_polls env) (clock_at_poll env)
                        (asAuthResponse env j) config w0)) \<noteq> NeverSettles
      \<and> (\<forall>t\<in>set (enter_times env).
             ended_at (fst (pollForToken (type_guards env) (token_polls env) (clock_at_poll env)
                        (asAuthResponse env j) config w0)) < t)
    \<longrightarrow> AbortSignal \<in> set (new_effects w (snd (authorize env config w)))
      \<and> filter is_open (new_effects w (snd (authorize env config w))) = [])
   \<and> length (filter is_open (new_effects w' (snd (authorize env' config' w')))) \<le> 1"
proof
  show "stdin_isTTY env
      \<and> fst (fetchDeviceAuthorization (tldts_parse env) (type_guards env) (device_endpoint env)
               config w) = Returns j
      \<and> outcome (fst (pollForToken (type_guards env) (token_polls env) (clock_at_poll env)
                        (asAuthResponse env j) config w0)) \<noteq> NeverSettles
      \<and> (\<forall>t\<in>set (enter_times env).
             ended_at (fst (pollForToken (type_guards env) (token_polls env) (clock_at_poll env)
                        (asAuthResponse env j) config w0)) < t)
    \<longrightarrow> AbortSignal \<in> set (new_effects w (snd (authorize env config w)))
      \<and> filter is_open (new_effects w (snd (authorize env config w))) = []"
  proof
    let ?pr = "poll (type_guards env) (token_polls env) (asAuthResponse env j)
                 (clock_at_poll env) (clock_at_poll env) []"
    assume h: "stdin_isTTY env
      \<and> fst (fetchDeviceAuthorization (tldts_parse env) (type_guards env) (device_endpoint env)
               config w) = Returns j
      \<and> outcome (fst (pollForToken (type_guards env) (token_polls env) (clock_at_poll env)
                        (asAuthResponse env j) config w0)) \<noteq> NeverSettles
      \<and> (\<forall>t\<in>set (enter_times env).
             ended_at (fst (pollForToken (type_guards env) (token_polls env) (clock_at_poll env)
                        (asAuthResponse env j) config w0)) < t)"
    then have s: "outcome ?pr \<noteq> NeverSettles" and e: "\<forall>t\<in>set (enter_times env). ended_at ?pr < t"
      by (simp_all add: pollForToken_fst)
    have "run_race (verification_uri (asAuthResponse env j)) (schedule (enter_times env) ?pr)
            = race_cancelled"
      by (simp add: schedule_settles_first [OF s e] run_race_settles_first)
    then have ne: "new_effects w (snd (authorize env config w)) =
           [HttpPost (authorizationEndpoint config)
                      (deviceAuthorizationParams (tldts_parse env) config)]
             @ map (\<lambda>t. HttpPost (tokenEndpoint config) (tokenPollParams (asAuthResponse env j) config))
                 (request_times ?pr)
             @ [ConsoleLog (user_code (asAuthResponse env j)) (verification_uri (asAuthResponse env j))]
             @ effects race_cancelled"
      using authorize_log_granted [of env config w j] h
      by (simp add: new_effects_def)
    show "AbortSignal \<in> set (new_effects w (snd (authorize env config w)))
      \<and> filter is_open (new_effects w (snd (authorize env config w))) = []"
      unfolding ne by (simp add: race_cancelled_def is_open_def)
  qed
next
  show "length (filter is_open (new_effects w' (snd (authorize env' config' w')))) \<le> 1"
  proof (cases "stdin_isTTY env'
            \<and> (\<exists>j. fst (fetchDeviceAuthorization (tldts_parse env') (type_guards env')
                          (device_endpoint env') config' w') = Returns j)")
    case False
    then show ?thesis by (simp add: authorize_log_not_granted)
  next
    case True
    then obtain j where t: "stdin_isTTY env'"
      and j: "fst (fetchDeviceAuthorization (tldts_parse env') (type_guards env')
                          (device_endpoint env') config' w') = Returns j" by blast
    have "filter is_open (new_effects w' (snd (authorize env' config' w'))) =
            filter is_open (effects (run_race (verification_uri (asAuthResponse env' j))
                         (schedule (enter_times env')
                            (poll (type_guards env') (token_polls env') (asAuthResponse env' j)
                                   (clock_at_poll env') (clock_at_poll env') []))))"
      using authorize_log_granted [OF t j]
      by (simp add: new_effects_def is_open_def)
    then show ?thesis by (simp only: run_race_opens_once)
  qed
qed


lemmas sample_defs =
  sample_env_def sample_guards_def sample_isAuthResponse_def sample_isTokenSuccess_def
  sample_grant_with_url_def sample_grant_normalised_def sample_asAuthResponse_def
  sample_buildFromTokenResponse_def sample_token_def sample_config_def sample_grant_def
  pending_then_success_def always_pending_def pending_reply_def has_str_def has_num_def
  get_prop_def empty_world_def

theorem authorize_opens_browser_witness:
  "AbortSignal \<in> set (new_effects empty_world (snd (authorize sample_env sample_config empty_world)))
   \<and> filter is_open (new_effects empty_world (snd (authorize sample_env sample_config empty_world))) = []
   \<and> length (filter is_open (new_effects empty_world
                 (snd (authorize (sample_env\<lparr>enter_times := [10, 20]\<rparr>) sample_config empty_world))))
       \<le> 1"
  using authorize_opens_browser
          [of sample_env sample_config empty_world "JObj sample_grant_normalised" empty_world
              empty_world "sample_env\<lparr>enter_times := [10, 20]\<rparr>" sample_config]
  by (simp add: sample_defs fetchDeviceAuthorization_def pollForToken_def poll.simps
        ok_status_def timeoutMs_def node_timer_delay_def Let_def emit_def)


subsection \<open>Properties of the orchestrator\<close>

text \<open>
  Claim C4. When \<^verbatim>\<open>getConfig()\<close> yields a token configuration,
  \<^verbatim>\<open>ensureAuthTokenPresence\<close> returns true and its only effect is that call
  of \<^verbatim>\<open>getConfig\<close>: no request, no load of tokens, no authorization, and
  the store is untouched.
\<close>

theorem ensureAuthTokenPresence_token_config:
  assumes "getConfig env = Inr config" and "isGleanTokenConfig config"
  shows "ensureAuthTokenPresence env w = (Returns True, emit (GetConfig False) w)
       \<and> new_effects w (snd (ensureAuthTokenPresence env w)) = [GetConfig False]
       \<and> store (snd (ensureAuthTokenPresence env w)) = store w"
  using assms by (simp add: ensureAuthTokenPresence_def Let_def)

theorem ensureAuthTokenPresence_token_config_witness:
  "ensureAuthTokenPresence (sample_env\<lparr>getConfig := Inr (TokenConfig ''https://acme.glean.com'' ''secret'')\<rparr>)
     empty_world
   = (Returns True, \<lparr> store = None, log = [GetConfig False] \<rparr>)"
  using ensureAuthTokenPresence_token_config
          [of "sample_env\<lparr>getConfig := Inr (TokenConfig ''https://acme.glean.com'' ''secret'')\<rparr>"
              "TokenConfig ''https://acme.glean.com'' ''secret''" empty_world]
  by (simp add: emit_def empty_world_def)

text \<open>
  Claim C8. On tokens without a refresh token \<^verbatim>\<open>fetchTokenViaRefresh\<close>
  throws the error with code RefreshTokenMissing and leaves the world as it
  found it: no request was made and the store is unchanged. Through
  \<^verbatim>\<open>forceRefreshTokens\<close>, on stored tokens without a refresh token, the
  same error comes out, the store is unchanged, and the only effects are the
  reading of the configuration and of the tokens.
\<close>

theorem fetchTokenViaRefresh_without_refresh_token:
  "(refreshToken tokens = None
      \<longrightarrow> fetchTokenViaRefresh env tokens config w = (Throws (AuthError RefreshTokenMissing), w))
   \<and> (getConfig_discoverOAuth env' = Inr (ResolvedOAuth config') \<and> store w' = Some tokens'
        \<and> refreshToken tokens' = None
      \<longrightarrow> fst (forceRefreshTokens env' w') = Throws (AuthError RefreshTokenMissing)
        \<and> store (snd (forceRefreshTokens env' w')) = store w'
        \<and> new_effects w' (snd (forceRefreshTokens env' w')) = [GetConfig True, LoadTokens])"
  by (simp add: fetchTokenViaRefresh_def forceRefreshTokens_def loadTokens_def Let_def)

theorem fetchTokenViaRefresh_without_refresh_token_witness:
  "fetchTokenViaRefresh sample_env \<lparr> accessToken = ''at'', refreshToken = None, expiresAt = Some 5 \<rparr>
     sample_config empty_world
   = (Throws (AuthError RefreshTokenMissing), empty_world)
   \<and> fst (forceRefreshTokens sample_env
            \<lparr> store = Some \<lparr> accessToken = ''at'', refreshToken = None, expiresAt = Some 5 \<rparr>,
              log = [] \<rparr>)
     = Throws (AuthError RefreshTokenMissing)"
  using fetchTokenViaRefresh_without_refresh_token
          [of "\<lparr> accessToken = ''at'', refreshToken = None, expiresAt = Some 5 \<rparr>"
              sample_env sample_config empty_world sample_env sample_config
              "\<lparr> store = Some \<lparr> accessToken = ''at'', refreshToken = None, expiresAt = Some 5 \<rparr>,
                 log = [] \<rparr>"
              "\<lparr> accessToken = ''at'', refreshToken = None, expiresAt = Some 5 \<rparr>"]
  by (simp add: sample_env_def)

lemma extends_by_iff:
  "extends_by P w w' \<longleftrightarrow> (\<exists>es. log w' = log w @ es \<and> list_all P es)"
proof
  assume e: "extends_by P w w'"
  have "log w' = take (length (log w)) (log w') @ drop (length (log w)) (log w')"
    by (rule append_take_drop_id [symmetric])
  also have "take (length (log w)) (log w') = log w"
    using e unfolding extends_by_def by (rule conjunct1)
  finally have "log w' = log w @ new_effects w w'"
    unfolding new_effects_def .
  moreover have "list_all P (new_effects w w')"
    using e unfolding extends_by_def by (rule conjunct2)
  ultimately show "\<exists>es. log w' = log w @ es \<and> list_all P es"
    by blast
next
  assume "\<exists>es. log w' = log w @ es \<and> list_all P es"
  then obtain es where l: "log w' = log w @ es" and p: "list_all P es" by blast
  show "extends_by P w w'"
    unfolding extends_by_def new_effects_def l using p by simp
qed







lemma extends_by_prefix: "extends_by P w w' \<Longrightarrow> \<exists>es. log w' = log w @ es"
  by (auto simp: extends_by_iff)

lemma quiet_simps [simp]:
  "quiet env (GetConfig b)" "quiet env LoadTokens" "quiet env (SaveTokens t)"
  "quiet env (ConsoleLog a u)" "quiet env (OpenBrowser u)" "quiet env AbortSignal"
  by (simp_all add: quiet_def is_network_def)




lemma authorize_no_tty:
  "\<not> stdin_isTTY env \<Longrightarrow> authorize env c w = (Throws (AuthError NoInteractiveTerminal), w)"
  by (simp add: authorize_def)

lemma authorize_grant_fails:
  assumes "stdin_isTTY env"
    and "fetchDeviceAuthorization (tldts_parse env) (type_guards env) (device_endpoint env) c w
           = (Throws cause, w1)"
  shows "authorize env c w = (Throws (rethrow cause), emit AbortSignal w1)"
  using assms by (simp add: authorize_def)

lemma fetchDeviceAuthorization_settles:
  "fst (fetchDeviceAuthorization pd g r config w) \<noteq> NeverSettles"
  by (simp add: fetchDeviceAuthorization_def Let_def split: http_result.split option.split)

lemma authorize_granted:
  assumes "stdin_isTTY env"
    and "fetchDeviceAuthorization (tldts_parse env) (type_guards env) (device_endpoint env) c w
           = (Returns j, w1)"
  shows "authorize env c w =
           ((case outcome (poll (type_guards env) (token_polls env) (asAuthResponse env j)
                             (clock_at_poll env) (clock_at_poll env) []) of
               Returns tokenResponse \<Rightarrow> Returns (Some (buildFromTokenResponse env tokenResponse))
             | Throws cause \<Rightarrow> Throws (rethrow cause)
             | NeverSettles \<Rightarrow> NeverSettles),
            w1\<lparr>log := log w1
               @ map (\<lambda>t. HttpPost (tokenEndpoint c) (tokenPollParams (asAuthResponse env j) c))
                   (request_times (poll (type_guards env) (token_polls env) (asAuthResponse env j)
                                     (clock_at_poll env) (clock_at_poll env) []))
               @ [ConsoleLog (user_code (asAuthResponse env j)) (verification_uri (asAuthResponse env j))]
               @ effects (run_race (verification_uri (asAuthResponse env j))
                           (schedule (enter_times env)
                              (poll (type_guards env) (token_polls env) (asAuthResponse env j)
                                     (clock_at_poll env) (clock_at_poll env) [])))\<rparr>)"
  using assms
  by (simp add: authorize_def Let_def pollForToken_def emit_def split: outcome.split)

lemma authorize_cases:
  obtains (no_tty) "\<not> stdin_isTTY env"
  | (fails) cause w1 where "stdin_isTTY env"
      "fetchDeviceAuthorization (tldts_parse env) (type_guards env) (device_endpoint env) c w
           = (Throws cause, w1)"
  | (granted) j w1 where "stdin_isTTY env"
      "fetchDeviceAuthorization (tldts_parse env) (type_guards env) (device_endpoint env) c w
           = (Returns j, w1)"
proof (cases "stdin_isTTY env")
  case False
  then show ?thesis by (rule no_tty)
next
  case True
  obtain r w1 where f: "fetchDeviceAuthorization (tldts_parse env) (type_guards env)
                        (device_endpoint env) c w = (r, w1)"
    by (cases "fetchDeviceAuthorization (tldts_parse env) (type_guards env)
                        (device_endpoint env) c w")
  have "r \<noteq> NeverSettles"
    using fetchDeviceAuthorization_settles [of "tldts_parse env" "type_guards env"
            "device_endpoint env" c w] f by simp
  then show ?thesis using True f fails granted by (cases r) auto
qed

lemma authorize_store: "store (snd (authorize env c w)) = store w"
proof (cases rule: authorize_cases [where env = env and c = c and w = w])
  case no_tty
  then show ?thesis by (simp add: authorize_no_tty)
next
  case (fails cause w1)
  have "store w1 = store w"
    using fetchDeviceAuthorization_store [of "tldts_parse env" "type_guards env"
            "device_endpoint env" c w] fails(2) by simp
  then show ?thesis by (simp add: authorize_grant_fails [OF fails])
next
  case (granted j w1)
  have "store w1 = store w"
    using fetchDeviceAuthorization_store [of "tldts_parse env" "type_guards env"
            "device_endpoint env" c w] granted(2) by simp
  then show ?thesis by (simp add: authorize_granted [OF granted])
qed






lemma store_saveTokens [simp]: "store (saveTokens t w) = Some t"
  by (simp add: saveTokens_def)

















lemma logged_logged [simp]: "logged es (logged ds w) = logged (ds @ es) w"
  by (simp add: logged_def)



lemma log_logged [simp]: "log (logged es w) = log w @ es"
  by (simp add: logged_def)

lemma store_logged [simp]: "store (logged es w) = store w"
  by (simp add: logged_def)
















end
